theory Spec2Isabelle
  imports Complex_Main
begin

section \<open>JSON values as the handlers see them\<close>

text \<open>
  The route handlers read request and response bodies with \<^verbatim>\<open>await req.json()\<close> and
  \<^verbatim>\<open>await response.json()\<close>. A parsed body is a JSON value. An object is the list of its
  own properties, each key once; a number is the value the parser gives. A reply carries
  such a value; how it is written to the wire is outside the model.
\<close>

datatype json =
    JNull
  | JBool bool
  | JNum rat
  | JStr string
  | JArr "json list"
  | JObj "(string \<times> json) list"

text \<open>
  A thrown value. Everything the platform calls used here throw or reject with (fetch,
  body parsing, reading a property of null) is an \<^verbatim>\<open>Error\<close> instance with a message;
  \<open>NonError\<close> stands for any other thrown value, which the handlers' \<^verbatim>\<open>instanceof Error\<close>
  test tells apart.
\<close>

datatype thrown = Error string | NonError

text \<open>A JavaScript value read from a body: \<open>None\<close> is \<^verbatim>\<open>undefined\<close>.\<close>

type_synonym jsval = "json option"

text \<open>
  \<^verbatim>\<open>const { a, b } = v\<close>: destructuring \<^verbatim>\<open>null\<close> throws a TypeError (the wording of its
  message is the engine's); an object yields its properties; a boolean, number, string or
  array has none of the properties the handlers ask for.
\<close>

fun destructure :: "json \<Rightarrow> thrown + (string \<Rightarrow> jsval)" where
  "destructure JNull = Inl (Error ''Cannot read properties of null'')"
| "destructure (JObj kvs) = Inr (map_of kvs)"
| "destructure v = Inr (\<lambda>k. None)"

text \<open>\<^verbatim>\<open>v.k\<close>, a single property read.\<close>

definition getProp :: "json \<Rightarrow> string \<Rightarrow> thrown + jsval" where
  "getProp v k = (case destructure v of Inl e \<Rightarrow> Inl e | Inr f \<Rightarrow> Inr (f k))"

text \<open>JavaScript truthiness, as \<^verbatim>\<open>!x\<close> and \<^verbatim>\<open>x ? a : b\<close> test it.\<close>

fun truthy :: "jsval \<Rightarrow> bool" where
  "truthy None = False"
| "truthy (Some JNull) = False"
| "truthy (Some (JBool b)) = b"
| "truthy (Some (JNum q)) = (q \<noteq> 0)"
| "truthy (Some (JStr s)) = (s \<noteq> [])"
| "truthy (Some (JArr xs)) = True"
| "truthy (Some (JObj kvs)) = True"

text \<open>
  \<^verbatim>\<open>JSON.stringify({ k1: v1, ... })\<close> of an object literal: a property whose value is
  \<^verbatim>\<open>undefined\<close> is left out.
\<close>

fun stringify :: "(string \<times> jsval) list \<Rightarrow> (string \<times> json) list" where
  "stringify [] = []"
| "stringify ((k, None) # kvs) = stringify kvs"
| "stringify ((k, Some v) # kvs) = (k, v) # stringify kvs"

section \<open>The external API and the trace of a handler run\<close>

text \<open>
  The URLs the handlers fetch, with the values interpolated into them:
  \<^item> \<open>V1_oneshot\<close>: \<^verbatim>\<open>https://api.daydream.live/v1/oneshot\<close>
  \<^item> \<open>V1_streams\<close>: \<^verbatim>\<open>https://api.daydream.live/v1/streams\<close>
  \<^item> \<open>V1_stream_prompt s\<close>: \<^verbatim>\<open>https://api.daydream.live/v1/streams/${s}/prompt\<close>
  \<^item> \<open>Beta_stream_prompts s\<close>: \<^verbatim>\<open>https://api.daydream.live/beta/streams/${s}/prompts\<close>
  \<^item> \<open>Beta_stream_prompt s p\<close>: \<^verbatim>\<open>https://api.daydream.live/beta/streams/${s}/prompts/${p}\<close>
\<close>

datatype url =
    V1_oneshot
  | V1_streams
  | V1_stream_prompt jsval
  | Beta_stream_prompts jsval
  | Beta_stream_prompt jsval jsval

datatype http_method = GET | POST

text \<open>A request sent with \<^verbatim>\<open>fetch\<close> (the headers carry the bearer credential only).\<close>

record request =
  req_method :: http_method
  req_url :: url
  req_body :: "json option"

text \<open>
  What \<^verbatim>\<open>fetch\<close> resolves to: the status code, and what \<^verbatim>\<open>await response.text()\<close> and
  \<^verbatim>\<open>await response.json()\<close> give (\<open>Inl\<close>: the call rejects).
\<close>

record response =
  resp_status :: nat
  resp_text :: "thrown + string"
  resp_json :: "thrown + json"

text \<open>\<^verbatim>\<open>response.ok\<close>: the status is in the range 200-299.\<close>

definition ok :: "response \<Rightarrow> bool" where
  "ok r = (200 \<le> resp_status r \<and> resp_status r \<le> 299)"

text \<open>
  The external service: what the \<open>n\<close>-th fetch of a handler run (counted from 0) gives for a
  request. \<open>Inl\<close>: the fetch rejects.
\<close>

type_synonym upstream = "nat \<Rightarrow> request \<Rightarrow> thrown + response"

text \<open>What a run does that the caller does not see: requests sent and delays awaited (ms).\<close>

datatype event = Fetch request | Sleep nat

text \<open>A run: its events in order, and the value returned (\<open>Inr\<close>) or thrown (\<open>Inl\<close>).\<close>

type_synonym 'a run = "event list \<times> (thrown + 'a)"

fun after :: "event list \<Rightarrow> 'a run \<Rightarrow> 'a run" where
  "after es (tr, r) = (es @ tr, r)"

section \<open>pollForResult\<close>

definition check_request :: "jsval \<Rightarrow> jsval \<Rightarrow> request" where
  "check_request stream_id prompt_id =
     \<lparr>req_method = GET, req_url = Beta_stream_prompt stream_id prompt_id, req_body = None\<rparr>"

text \<open>
  The \<^verbatim>\<open>for (let i = 0; i < maxAttempts; i++)\<close> loop of \<^verbatim>\<open>pollForResult\<close>, from the state
  where the counter is \<open>i\<close>. \<open>k\<close> is the number of fetches the run has made before the loop.
\<close>

function pollLoop ::
  "upstream \<Rightarrow> nat \<Rightarrow> jsval \<Rightarrow> jsval \<Rightarrow> nat \<Rightarrow> nat \<Rightarrow> nat \<Rightarrow> json run" where
  "pollLoop up k stream_id prompt_id maxAttempts interval i =
     (if i < maxAttempts then
        (case up (k + i) (check_request stream_id prompt_id) of
           Inl e \<Rightarrow> ([Fetch (check_request stream_id prompt_id)], Inl e)
         | Inr check \<Rightarrow>
             if \<not> ok check then
               (case resp_text check of
                  Inl e \<Rightarrow> ([Fetch (check_request stream_id prompt_id)], Inl e)
                | Inr t \<Rightarrow> ([Fetch (check_request stream_id prompt_id)], Inl (Error t)))
             else
               (case resp_json check of
                  Inl e \<Rightarrow> ([Fetch (check_request stream_id prompt_id)], Inl e)
                | Inr data \<Rightarrow>
                    (case getProp data ''status'' of
                       Inl e \<Rightarrow> ([Fetch (check_request stream_id prompt_id)], Inl e)
                     | Inr st \<Rightarrow>
                         if st = Some (JStr ''succeeded'') then
                           ([Fetch (check_request stream_id prompt_id)], Inr data)
                         else if st = Some (JStr ''failed'') then
                           ([Fetch (check_request stream_id prompt_id)],
                            Inl (Error ''Prompt failed to process''))
                         else
                           after [Fetch (check_request stream_id prompt_id), Sleep interval]
                             (pollLoop up k stream_id prompt_id maxAttempts interval (Suc i)))))
      else ([], Inl (Error ''Polling timed out, result not ready'')))"
  by pat_completeness auto
termination
  by (relation "measure (\<lambda>(up, k, stream_id, prompt_id, maxAttempts, interval, i). maxAttempts - i)")
     auto

text \<open>\<^verbatim>\<open>pollForResult(stream_id, prompt_id, maxAttempts = 10, interval = 3000)\<close>.\<close>

definition pollForResult ::
  "upstream \<Rightarrow> nat \<Rightarrow> jsval \<Rightarrow> jsval \<Rightarrow> nat \<Rightarrow> nat \<Rightarrow> json run" where
  "pollForResult up k stream_id prompt_id maxAttempts interval =
     pollLoop up k stream_id prompt_id maxAttempts interval 0"

section \<open>The route handlers\<close>

text \<open>Sequencing: \<^verbatim>\<open>const x = await m; ...\<close>. A rejection of \<open>m\<close> is thrown on.\<close>

definition await :: "'a run \<Rightarrow> ('a \<Rightarrow> 'b run) \<Rightarrow> 'b run" where
  "await m f = (case m of (tr, Inl e) \<Rightarrow> (tr, Inl e) | (tr, Inr x) \<Rightarrow> after tr (f x))"

text \<open>An outcome that is already there (a body read, a property read): no event.\<close>

definition settled :: "thrown + 'a \<Rightarrow> 'a run" where
  "settled v = ([], v)"

definition returns :: "'a \<Rightarrow> 'a run" where
  "returns x = ([], Inr x)"

text \<open>\<^verbatim>\<open>await fetch(url, init)\<close>, the \<open>n\<close>-th fetch of the run.\<close>

definition fetch :: "upstream \<Rightarrow> nat \<Rightarrow> request \<Rightarrow> response run" where
  "fetch up n rq = ([Fetch rq], up n rq)"

text \<open>\<^verbatim>\<open>try { m } catch (error) { return h(error) }\<close>.\<close>

definition try_catch :: "'a run \<Rightarrow> (thrown \<Rightarrow> 'a) \<Rightarrow> 'a run" where
  "try_catch m h = (case m of (tr, Inl e) \<Rightarrow> (tr, Inr (h e)) | (tr, Inr x) \<Rightarrow> (tr, Inr x))"

text \<open>What a handler answers: \<^verbatim>\<open>NextResponse.json(body, { status })\<close>.\<close>

record reply =
  reply_status :: nat
  reply_body :: json

text \<open>
  The status codes of a response that has no body (the Fetch standard's null body statuses).
\<close>

definition null_body_status :: "nat \<Rightarrow> bool" where
  "null_body_status st = (st = 101 \<or> st = 103 \<or> st = 204 \<or> st = 205 \<or> st = 304)"

text \<open>
  \<^verbatim>\<open>NextResponse.json(body, { status: st })\<close>. The call builds a response with a body, and
  the platform refuses to: it throws a RangeError when the status is outside 200-599, and a
  TypeError when the status is a null body status (the wording of the messages is the
  platform's). Inside a \<^verbatim>\<open>try\<close> block the throw goes to the handler's \<^verbatim>\<open>catch\<close>.
\<close>

definition NextResponse_json :: "json \<Rightarrow> nat \<Rightarrow> thrown + reply" where
  "NextResponse_json data st =
     (if st < 200 \<or> 599 < st then
        Inl (Error ''init[status] must be in the range of 200 to 599, inclusive.'')
      else if null_body_status st then
        Inl (Error ''Response constructor: Invalid response status code'')
      else Inr \<lparr>reply_status = st, reply_body = data\<rparr>)"

text \<open>\<^verbatim>\<open>NextResponse.json(data)\<close>: status 200, which the call accepts.\<close>

definition json_reply :: "json \<Rightarrow> reply" where
  "json_reply data = \<lparr>reply_status = 200, reply_body = data\<rparr>"

text \<open>
  The reply \<^verbatim>\<open>NextResponse.json({ error: msg }, { status: st })\<close> makes when it accepts
  the status. The handlers are written with it where the status is the constant 400 or 500.
\<close>

definition error_reply :: "string \<Rightarrow> nat \<Rightarrow> reply" where
  "error_reply msg st = \<lparr>reply_status = st, reply_body = JObj [(''error'', JStr msg)]\<rparr>"

text \<open>
  The catch block of the handlers that test \<^verbatim>\<open>error instanceof Error\<close>
  (oneshot/route.ts lines 43-51, part_000 lines 88-96 and 196-204).
\<close>

definition catch_instanceof :: "thrown \<Rightarrow> reply" where
  "catch_instanceof error =
     (case error of
        Error message \<Rightarrow> error_reply message 500
      | NonError \<Rightarrow> error_reply ''Unknown server error'' 500)"

text \<open>
  The catch block \<^verbatim>\<open>catch (error: any) { return NextResponse.json({ error: error.message },
  { status: 500 }) }\<close> (part_000 lines 51-53, part_001 lines 40-42). The message of a value that
  is no Error is \<^verbatim>\<open>undefined\<close>, which the serialisation leaves out.
\<close>

definition catch_any :: "thrown \<Rightarrow> reply" where
  "catch_any error =
     (case error of
        Error message \<Rightarrow> error_reply message 500
      | NonError \<Rightarrow> \<lparr>reply_status = 500, reply_body = JObj (stringify [(''error'', None)])\<rparr>)"

subsection \<open>oneshot/route.ts\<close>

definition oneshot_request :: "jsval \<Rightarrow> jsval \<Rightarrow> request" where
  "oneshot_request prompt img =
     \<lparr>req_method = POST, req_url = V1_oneshot,
      req_body = Some (JObj (stringify
        [(''pipeline'', Some (JStr (if truthy img then ''image-to-image'' else ''text-to-image''))),
         (''model_id'', Some (JStr ''streamdiffusion'')),
         (''params'', Some (JObj (stringify
            ([(''prompt'', prompt)] @ (if truthy img then [(''image'', img)] else []) @
             [(''guidance_scale'', Some (JNum (15 / 2))),
              (''num_inference_steps'', Some (JNum 30))]))))]))\<rparr>"

definition POST_oneshot :: "upstream \<Rightarrow> thrown + json \<Rightarrow> reply run" where
  "POST_oneshot up req_json =
     try_catch
       (await (settled req_json) (\<lambda>parsed.
        await (settled (destructure parsed)) (\<lambda>f.
          if \<not> truthy (f ''prompt'') then returns (error_reply ''Missing prompt'' 400)
          else
            await (fetch up 0 (oneshot_request (f ''prompt'') (f ''image''))) (\<lambda>response.
              if \<not> ok response then
                await (settled (resp_text response)) (\<lambda>errorText.
                  settled (NextResponse_json (JObj [(''error'', JStr errorText)])
                    (resp_status response)))
              else
                await (settled (resp_json response)) (\<lambda>result.
                  returns (json_reply result))))))
       catch_instanceof"

subsection \<open>The stream route, part_000 lines 25-54 and lines 58-97\<close>

definition streams_request :: "jsval \<Rightarrow> request" where
  "streams_request pipeline_id =
     \<lparr>req_method = POST, req_url = V1_streams,
      req_body = Some (JObj (stringify [(''pipeline_id'', pipeline_id)]))\<rparr>"

text \<open>Lines 25-54: the body is read and checked before the \<^verbatim>\<open>try\<close> block.\<close>

definition POST_stream_a :: "upstream \<Rightarrow> thrown + json \<Rightarrow> reply run" where
  "POST_stream_a up req_json =
     await (settled req_json) (\<lambda>parsed.
     await (settled (destructure parsed)) (\<lambda>f.
       if \<not> truthy (f ''pipeline_id'') then returns (error_reply ''Missing pipeline_id'' 400)
       else
         try_catch
           (await (fetch up 0 (streams_request (f ''pipeline_id''))) (\<lambda>response.
              if \<not> ok response then
                await (settled (resp_text response)) (\<lambda>errorText.
                  settled (NextResponse_json (JObj [(''error'', JStr errorText)])
                    (resp_status response)))
              else
                await (settled (resp_json response)) (\<lambda>data.
                  returns (json_reply data))))
           catch_any))"

text \<open>Lines 58-97: everything is inside the \<^verbatim>\<open>try\<close> block.\<close>

definition POST_stream_b :: "upstream \<Rightarrow> thrown + json \<Rightarrow> reply run" where
  "POST_stream_b up req_json =
     try_catch
       (await (settled req_json) (\<lambda>parsed.
        await (settled (destructure parsed)) (\<lambda>f.
          if \<not> truthy (f ''pipeline_id'') then returns (error_reply ''Missing pipeline_id'' 400)
          else
            await (fetch up 0 (streams_request (f ''pipeline_id''))) (\<lambda>response.
              if \<not> ok response then
                await (settled (resp_text response)) (\<lambda>errorText.
                  settled (NextResponse_json (JObj [(''error'', JStr errorText)])
                    (resp_status response)))
              else
                await (settled (resp_json response)) (\<lambda>data.
                  returns (json_reply data))))))
       catch_instanceof"

subsection \<open>The prompt route, part_001 lines 3-43\<close>

definition prompt_image_request :: "jsval \<Rightarrow> jsval \<Rightarrow> jsval \<Rightarrow> request" where
  "prompt_image_request stream_id prompt img =
     \<lparr>req_method = POST, req_url = V1_stream_prompt stream_id,
      req_body = Some (JObj (stringify
        [(''prompt'', prompt),
         (''image'', img),
         (''guidance_scale'', Some (JNum (15 / 2))),
         (''num_inference_steps'', Some (JNum 50))]))\<rparr>"

definition POST_prompt_image :: "upstream \<Rightarrow> thrown + json \<Rightarrow> reply run" where
  "POST_prompt_image up req_json =
     await (settled req_json) (\<lambda>parsed.
     await (settled (destructure parsed)) (\<lambda>f.
       if \<not> truthy (f ''stream_id'') \<or> \<not> truthy (f ''prompt'') \<or> \<not> truthy (f ''image'')
       then returns (error_reply ''Missing required fields'' 400)
       else
         try_catch
           (await (fetch up 0 (prompt_image_request (f ''stream_id'') (f ''prompt'') (f ''image'')))
              (\<lambda>response.
                if \<not> ok response then
                  await (settled (resp_text response)) (\<lambda>errorText.
                    settled (NextResponse_json (JObj [(''error'', JStr errorText)])
                    (resp_status response)))
                else
                  await (settled (resp_json response)) (\<lambda>data.
                    returns (json_reply data))))
           catch_any))"

subsection \<open>The prompt route with polling, part_000 lines 137-205\<close>

definition prompts_request :: "jsval \<Rightarrow> jsval \<Rightarrow> jsval \<Rightarrow> request" where
  "prompts_request stream_id prompt img =
     \<lparr>req_method = POST, req_url = Beta_stream_prompts stream_id,
      req_body = Some (JObj (stringify
        [(''pipeline'', Some (JStr (if truthy img then ''image-to-image'' else ''text-to-image''))),
         (''model_id'', Some (JStr ''streamdiffusion'')),
         (''params'', Some (JObj (stringify
            ([(''prompt'', prompt)] @ (if truthy img then [(''image'', img)] else []) @
             [(''guidance_scale'', Some (JNum (15 / 2))),
              (''num_inference_steps'', Some (JNum 50))]))))]))\<rparr>"

text \<open>
  The call \<^verbatim>\<open>pollForResult(stream_id, initial.id)\<close> takes the defaults, 10 attempts
  3000 ms apart, and is the run's second fetch onwards.
\<close>

definition POST_prompt_poll :: "upstream \<Rightarrow> thrown + json \<Rightarrow> reply run" where
  "POST_prompt_poll up req_json =
     try_catch
       (await (settled req_json) (\<lambda>parsed.
        await (settled (destructure parsed)) (\<lambda>f.
          if \<not> truthy (f ''stream_id'') \<or> \<not> truthy (f ''prompt'') then
            returns (error_reply ''Missing required fields: stream_id and prompt are required'' 400)
          else
            await (fetch up 0 (prompts_request (f ''stream_id'') (f ''prompt'') (f ''image'')))
              (\<lambda>response.
                if \<not> ok response then
                  await (settled (resp_text response)) (\<lambda>errorText.
                    settled (NextResponse_json (JObj [(''error'', JStr errorText)])
                    (resp_status response)))
                else
                  await (settled (resp_json response)) (\<lambda>initial.
                  await (settled (getProp initial ''id'')) (\<lambda>initial_id.
                    if truthy initial_id then
                      await (settled (getProp initial ''status'')) (\<lambda>initial_status.
                        if initial_status \<noteq> Some (JStr ''succeeded'') then
                          await (pollForResult up 1 (f ''stream_id'') initial_id 10 3000)
                            (\<lambda>finalData. returns (json_reply finalData))
                        else returns (json_reply initial))
                    else returns (json_reply initial)))))))
       catch_instanceof"

section \<open>Measuring a trace\<close>

text \<open>A status check is a GET request; the handlers' other requests are POSTs.\<close>

fun is_check :: "event \<Rightarrow> bool" where
  "is_check (Fetch rq) = (req_method rq = GET)"
| "is_check (Sleep d) = False"

fun is_fetch :: "event \<Rightarrow> bool" where
  "is_fetch (Fetch rq) = True"
| "is_fetch (Sleep d) = False"

text \<open>The time a trace spends in delays, in ms.\<close>

fun delay :: "event \<Rightarrow> nat" where
  "delay (Fetch rq) = 0"
| "delay (Sleep d) = d"

definition sleep_total :: "event list \<Rightarrow> nat" where
  "sleep_total tr = sum_list (map delay tr)"

text \<open>
  A trace of checks \<open>d\<close> ms apart: a check, then a delay of exactly \<open>d\<close>, then a check, and so
  on; it may end after a check or after a delay.
\<close>

fun paced :: "nat \<Rightarrow> event list \<Rightarrow> bool" where
  "paced d [] = True"
| "paced d [Fetch rq] = is_check (Fetch rq)"
| "paced d (Fetch rq # Sleep t # es) = (is_check (Fetch rq) \<and> t = d \<and> paced d es)"
| "paced d es = False"

text \<open>The status code a run answers with, when it answers.\<close>

definition status_of :: "reply run \<Rightarrow> nat option" where
  "status_of r = (case snd r of Inl e \<Rightarrow> None | Inr rep \<Rightarrow> Some (reply_status rep))"

section \<open>Scripted external services\<close>

text \<open>A service that answers the fetches of a run from a list, and is unreachable after it.\<close>

definition script :: "response list \<Rightarrow> upstream" where
  "script rs n rq = (if n < length rs then Inr (rs ! n) else Inl (Error ''fetch failed''))"

definition processing_response :: response where
  "processing_response =
     \<lparr>resp_status = 200, resp_text = Inr ''(the json text)'',
      resp_json = Inr (JObj [(''id'', JStr ''p1''), (''status'', JStr ''processing'')])\<rparr>"

definition failed_response :: response where
  "failed_response =
     \<lparr>resp_status = 200, resp_text = Inr ''(the json text)'',
      resp_json = Inr (JObj [(''id'', JStr ''p1''), (''status'', JStr ''failed'')])\<rparr>"

definition succeeded_response :: response where
  "succeeded_response =
     \<lparr>resp_status = 200, resp_text = Inr ''(the json text)'',
      resp_json = Inr (JObj [(''id'', JStr ''p1''), (''status'', JStr ''succeeded''),
        (''outputs'', JArr [JObj [(''url'', JStr ''https://example.org/cat.png'')]])])\<rparr>"

definition unavailable_response :: response where
  "unavailable_response =
     \<lparr>resp_status = 503, resp_text = Inr ''Service Unavailable'',
      resp_json = Inl (Error ''Unexpected token S'')\<rparr>"

definition not_modified_response :: response where
  "not_modified_response =
     \<lparr>resp_status = 304, resp_text = Inr [], resp_json = Inl (Error ''Unexpected end'')\<rparr>"

text \<open>An ok response whose body is the JSON text \<^verbatim>\<open>null\<close>.\<close>

definition null_response :: response where
  "null_response = \<lparr>resp_status = 200, resp_text = Inr ''null'', resp_json = Inr JNull\<rparr>"

text \<open>A request body with a stream identifier and a prompt, and no image.\<close>

definition text_prompt_body :: json where
  "text_prompt_body = JObj [(''stream_id'', JStr ''s1''), (''prompt'', JStr ''a cat'')]"

section \<open>What a status check shows\<close>

text \<open>
  The outcome of a status check carries a body whose status is \<^verbatim>\<open>succeeded\<close> or
  \<^verbatim>\<open>failed\<close>, whatever its status code.
\<close>

definition terminal_body :: "thrown + response \<Rightarrow> bool" where
  "terminal_body out =
     (case out of
        Inl e \<Rightarrow> False
      | Inr check \<Rightarrow>
          (case resp_json check of
             Inl e \<Rightarrow> False
           | Inr data \<Rightarrow>
               getProp data ''status'' = Inr (Some (JStr ''succeeded'')) \<or>
               getProp data ''status'' = Inr (Some (JStr ''failed''))))"

text \<open>None of the \<open>n\<close> fetches from the \<open>k\<close>-th on shows such a body.\<close>

definition never_terminal :: "upstream \<Rightarrow> nat \<Rightarrow> request \<Rightarrow> nat \<Rightarrow> bool" where
  "never_terminal up k rq n = list_all (\<lambda>i. \<not> terminal_body (up (k + i) rq)) [0..<n]"

text \<open>
  The outcome of a status check that keeps the loop going: the fetch resolves, the response
  is ok, its body parses, and the status read from it is neither \<^verbatim>\<open>succeeded\<close> nor
  \<^verbatim>\<open>failed\<close>.
\<close>

definition pending :: "thrown + response \<Rightarrow> bool" where
  "pending out =
     (case out of
        Inl e \<Rightarrow> False
      | Inr check \<Rightarrow>
          ok check \<and>
          (case resp_json check of
             Inl e \<Rightarrow> False
           | Inr data \<Rightarrow>
               (case getProp data ''status'' of
                  Inl e \<Rightarrow> False
                | Inr st \<Rightarrow> st \<noteq> Some (JStr ''succeeded'') \<and> st \<noteq> Some (JStr ''failed''))))"

definition all_pending :: "upstream \<Rightarrow> nat \<Rightarrow> request \<Rightarrow> nat \<Rightarrow> bool" where
  "all_pending up k rq n = list_all (\<lambda>i. pending (up (k + i) rq)) [0..<n]"

section \<open>The signaling server, part_000 lines 1-22\<close>

text \<open>
  The server's state: the sockets whose \<^verbatim>\<open>joinSession\<close> listener is registered, and the
  rooms, each the set of the sockets that joined it. Sockets are named by their id.
\<close>

record server =
  listening :: "string set"
  rooms :: "string \<Rightarrow> string set"

definition init_server :: server where
  "init_server = \<lparr>listening = {}, rooms = (\<lambda>room. {})\<rparr>"

text \<open>What reaches the server: a connection, or a \<^verbatim>\<open>joinSession\<close> event with its room id.\<close>

datatype signal = Connection string | JoinSession string string

text \<open>\<^verbatim>\<open>socket.join(roomId)\<close>: the socket is added to the room of that name.\<close>

definition join :: "string \<Rightarrow> string \<Rightarrow> server \<Rightarrow> server" where
  "join socket roomId s = s\<lparr>rooms := (rooms s)(roomId := insert socket (rooms s roomId))\<rparr>"

text \<open>
  \<^verbatim>\<open>io.on("connection", (socket) => { socket.on("joinSession", (roomId) => {
  socket.join(roomId) }) })\<close>: a connection registers the listener; the listener joins the room
  it is given, whatever the string.
\<close>

fun on_signal :: "server \<Rightarrow> signal \<Rightarrow> server" where
  "on_signal s (Connection socket) = s\<lparr>listening := insert socket (listening s)\<rparr>"
| "on_signal s (JoinSession socket roomId) =
     (if socket \<in> listening s then join socket roomId s else s)"

definition serve :: "server \<Rightarrow> signal list \<Rightarrow> server" where
  "serve s sigs = foldl on_signal s sigs"

text \<open>
  Modelled from the spec: the repository has no code that broadcasts. A broadcast to a room
  (\<^verbatim>\<open>io.to(room).emit(...)\<close>) is taken to reach the sockets of that broadcast group.
\<close>

definition broadcast_reaches :: "server \<Rightarrow> string \<Rightarrow> string set" where
  "broadcast_reaches s room = rooms s room"

text \<open>The rooms a client asked to join in a list of signals.\<close>

fun joined :: "string \<Rightarrow> signal list \<Rightarrow> string set" where
  "joined c [] = {}"
| "joined c (Connection socket # sigs) = joined c sigs"
| "joined c (JoinSession socket roomId # sigs) =
     (if socket = c then insert roomId (joined c sigs) else joined c sigs)"

section \<open>Facts about runs\<close>

declare pollLoop.simps [simp del]

lemma fst_after: "fst (after es r) = es @ fst r"
  by (cases r) simp

lemma snd_after: "snd (after es r) = snd r"
  by (cases r) simp

lemma sleep_total_Cons: "sleep_total (e # es) = delay e + sleep_total es"
  by (simp add: sleep_total_def)

lemma sleep_total_Nil: "sleep_total [] = 0"
  by (simp add: sleep_total_def)

lemma await_settled:
  "await (settled v) f = (case v of Inl e \<Rightarrow> ([], Inl e) | Inr x \<Rightarrow> f x)"
  by (cases v; cases "f (projr v)") (simp_all add: await_def settled_def)

lemma await_returns: "await (returns x) f = f x"
  by (cases "f x") (simp add: await_def returns_def)

lemma await_fetch:
  "await (fetch up n rq) f =
     (case up n rq of Inl e \<Rightarrow> ([Fetch rq], Inl e) | Inr r \<Rightarrow> after [Fetch rq] (f r))"
  by (simp add: await_def fetch_def split: sum.splits)

lemma await_pair:
  "await (tr, v) f = (case v of Inl e \<Rightarrow> (tr, Inl e) | Inr x \<Rightarrow> after tr (f x))"
  by (simp add: await_def split: sum.splits)

lemma fst_await_returns: "fst (await m (\<lambda>x. returns (g x))) = fst m"
  by (cases m) (simp add: await_def returns_def split: sum.splits)

lemma fst_try_catch: "fst (try_catch m h) = fst m"
  by (cases m) (simp add: try_catch_def split: sum.splits)

lemma fst_returns: "fst (returns x) = []"
  by (simp add: returns_def)

lemma fst_settled: "fst (settled v) = []"
  by (simp add: settled_def)

lemma try_catch_pair:
  "try_catch (tr, v) h = (tr, Inr (case v of Inl e \<Rightarrow> h e | Inr x \<Rightarrow> x))"
  by (simp add: try_catch_def split: sum.splits)

lemma try_catch_after: "try_catch (after es m) h = after es (try_catch m h)"
  by (cases m) (simp add: try_catch_def split: sum.splits)

lemma try_catch_returns: "try_catch (returns x) h = returns x"
  by (simp add: try_catch_def returns_def)

lemma try_catch_settled:
  "try_catch (settled v) h = ([], Inr (case v of Inl e \<Rightarrow> h e | Inr x \<Rightarrow> x))"
  by (simp add: settled_def try_catch_pair)

lemma after_returns: "after es (returns x) = (es, Inr x)"
  by (simp add: returns_def)

lemma after_settled: "after es (settled v) = (es, v)"
  by (simp add: settled_def)

lemmas run_simps =
  await_settled await_returns await_fetch try_catch_pair try_catch_after try_catch_returns
  try_catch_settled after_returns after_settled

lemma NextResponse_json_accepts:
  "300 \<le> st \<Longrightarrow> st \<le> 599 \<Longrightarrow> st \<noteq> 304 \<Longrightarrow>
   NextResponse_json (JObj [(''error'', JStr msg)]) st = Inr (error_reply msg st)"
  by (simp add: NextResponse_json_def null_body_status_def error_reply_def)

lemma NextResponse_json_refuses:
  "st < 200 \<or> st = 304 \<or> 599 < st \<Longrightarrow> \<exists>msg. NextResponse_json data st = Inl (Error msg)"
  by (auto simp: NextResponse_json_def null_body_status_def)

lemma status_of_caught:
  "status_of (tr, Inr (catch_instanceof e)) = Some 500"
  "status_of (tr, Inr (catch_any e)) = Some 500"
  by (cases e; simp add: status_of_def catch_instanceof_def catch_any_def error_reply_def)+

lemma getProp_null: "getProp JNull k = Inl (Error ''Cannot read properties of null'')"
  by (simp add: getProp_def)

lemma getProp_not_null: "data \<noteq> JNull \<Longrightarrow> \<exists>v. getProp data k = Inr v"
  by (cases data) (simp_all add: getProp_def)

lemma destructure_not_null: "body \<noteq> JNull \<Longrightarrow> \<exists>f. destructure body = Inr f"
  by (cases body) simp_all

lemma req_method_requests:
  "req_method (oneshot_request p i) = POST"
  "req_method (streams_request q) = POST"
  "req_method (prompt_image_request s p i) = POST"
  "req_method (prompts_request s p i) = POST"
  "req_method (check_request s c) = GET"
  by (simp_all add: oneshot_request_def streams_request_def prompt_image_request_def
        prompts_request_def check_request_def)

section \<open>The polling loop\<close>

lemma pollLoop_done:
  "\<not> i < m \<Longrightarrow>
   pollLoop up k s p m d i = ([], Inl (Error ''Polling timed out, result not ready''))"
  by (subst pollLoop.simps) simp

lemma pollLoop_step:
  assumes "i < m"
  shows "(\<exists>r. pollLoop up k s p m d i = ([Fetch (check_request s p)], r)) \<or>
         pollLoop up k s p m d i =
           after [Fetch (check_request s p), Sleep d] (pollLoop up k s p m d (Suc i))"
  using assms by (subst (1 2) pollLoop.simps) (simp split: sum.splits)

lemma pollLoop_checks:
  "length (filter is_check (fst (pollLoop up k s p m d i))) \<le> m - i"
proof (induction "m - i" arbitrary: i)
  case 0
  then show ?case by (simp add: pollLoop_done)
next
  case (Suc n)
  then have lt: "i < m" and n: "n = m - Suc i" by simp_all
  from pollLoop_step [OF lt, of up k s p d] show ?case
  proof
    assume "\<exists>r. pollLoop up k s p m d i = ([Fetch (check_request s p)], r)"
    then show ?thesis using lt by (auto simp: check_request_def)
  next
    assume "pollLoop up k s p m d i =
      after [Fetch (check_request s p), Sleep d] (pollLoop up k s p m d (Suc i))"
    then show ?thesis
      using Suc.hyps(1) [OF n] lt by (simp add: fst_after check_request_def)
  qed
qed

lemma pollLoop_sleep:
  "sleep_total (fst (pollLoop up k s p m d i)) \<le> (m - i) * d"
proof (induction "m - i" arbitrary: i)
  case 0
  then show ?case by (simp add: pollLoop_done sleep_total_Nil)
next
  case (Suc n)
  then have lt: "i < m" and n: "n = m - Suc i" by simp_all
  have split: "(m - i) * d = d + (m - Suc i) * d"
    using Suc.hyps(2) n by (metis mult_Suc)
  from pollLoop_step [OF lt, of up k s p d] show ?case
  proof
    assume "\<exists>r. pollLoop up k s p m d i = ([Fetch (check_request s p)], r)"
    then show ?thesis by (auto simp: sleep_total_Cons sleep_total_Nil)
  next
    assume "pollLoop up k s p m d i =
      after [Fetch (check_request s p), Sleep d] (pollLoop up k s p m d (Suc i))"
    then show ?thesis
      using Suc.hyps(1) [OF n] split
      by (simp add: fst_after sleep_total_Cons)
  qed
qed

lemma pollLoop_paced:
  "paced d (fst (pollLoop up k s p m d i))"
proof (induction "m - i" arbitrary: i)
  case 0
  then show ?case by (simp add: pollLoop_done)
next
  case (Suc n)
  then have lt: "i < m" and n: "n = m - Suc i" by simp_all
  from pollLoop_step [OF lt, of up k s p d] show ?case
  proof
    assume "\<exists>r. pollLoop up k s p m d i = ([Fetch (check_request s p)], r)"
    then show ?thesis by (auto simp: check_request_def)
  next
    assume "pollLoop up k s p m d i =
      after [Fetch (check_request s p), Sleep d] (pollLoop up k s p m d (Suc i))"
    then show ?thesis
      using Suc.hyps(1) [OF n] by (simp add: fst_after check_request_def)
  qed
qed

lemma pollLoop_result:
  "snd (pollLoop up k s p m d i) = Inr data \<Longrightarrow>
   getProp data ''status'' = Inr (Some (JStr ''succeeded''))"
proof (induction up k s p m d i rule: pollLoop.induct)
  case (1 up k s p m d i)
  show ?case
    using "1.IH" "1.prems"
    by (subst (asm) pollLoop.simps)
       (auto simp: snd_after split: sum.splits if_splits)
qed

lemma pollLoop_pending:
  assumes "i < maxAttempts"
    and "up (k + i) (check_request s p) = Inr check"
    and "ok check"
    and "resp_json check = Inr data"
    and "getProp data ''status'' = Inr st"
    and "st \<noteq> Some (JStr ''succeeded'')"
    and "st \<noteq> Some (JStr ''failed'')"
  shows "pollLoop up k s p maxAttempts interval i =
           after [Fetch (check_request s p), Sleep interval]
             (pollLoop up k s p maxAttempts interval (Suc i))"
  using assms by (subst pollLoop.simps) simp

lemma pollLoop_first_fetch:
  "i < maxAttempts \<Longrightarrow>
   \<exists>tr r. pollLoop up k s p maxAttempts interval i = (Fetch (check_request s p) # tr, r)"
  using pollLoop_step [of i maxAttempts up k s p interval]
  by (cases "pollLoop up k s p maxAttempts interval (Suc i)") auto

lemma pending_step:
  assumes "i < m" and "pending (up (k + i) (check_request s p))"
  shows "pollLoop up k s p m d i =
           after [Fetch (check_request s p), Sleep d] (pollLoop up k s p m d (Suc i))"
proof -
  from assms(2) obtain check data st where
    "up (k + i) (check_request s p) = Inr check" "ok check" "resp_json check = Inr data"
    "getProp data ''status'' = Inr st"
    "st \<noteq> Some (JStr ''succeeded'')" "st \<noteq> Some (JStr ''failed'')"
    by (auto simp: pending_def split: sum.splits)
  with assms(1) show ?thesis by (rule pollLoop_pending)
qed

lemma pollLoop_all_pending:
  "\<forall>j. i \<le> j \<and> j < m \<longrightarrow> pending (up (k + j) (check_request s p)) \<Longrightarrow>
   pollLoop up k s p m d i =
     (concat (replicate (m - i) [Fetch (check_request s p), Sleep d]),
      Inl (Error ''Polling timed out, result not ready''))"
proof (induction "m - i" arbitrary: i)
  case 0
  then show ?case by (simp add: pollLoop_done)
next
  case (Suc n)
  then have lt: "i < m" and n: "n = m - Suc i" by simp_all
  have rest: "\<forall>j. Suc i \<le> j \<and> j < m \<longrightarrow> pending (up (k + j) (check_request s p))"
    using Suc.prems by simp
  have here: "pending (up (k + i) (check_request s p))"
    using Suc.prems lt by simp
  have m: "m - i = Suc (m - Suc i)" using lt by simp
  show ?case
    using Suc.hyps(1) [OF n rest] pending_step [of i m up k s p d] lt here
    by (simp add: m)
qed

lemma POST_prompt_poll_checks:
  "length (filter is_check (fst (POST_prompt_poll up rq))) \<le> 10"
  using pollLoop_checks [of up 1 _ _ 10 3000 0]
  by (simp add: POST_prompt_poll_def fst_try_catch await_settled await_fetch fst_after
        fst_returns fst_settled fst_await_returns req_method_requests pollForResult_def
      split: sum.splits)

lemma POST_prompt_poll_sleep:
  "sleep_total (fst (POST_prompt_poll up rq)) \<le> 10 * 3000"
  using pollLoop_sleep [of up 1 _ _ 10 3000 0]
  by (simp add: POST_prompt_poll_def fst_try_catch await_settled await_fetch fst_after
        fst_returns fst_settled fst_await_returns pollForResult_def sleep_total_Cons
        sleep_total_Nil
      split: sum.splits)

text \<open>
  C7. The polling loop always ends: the recursion of \<open>pollLoop\<close> is well-founded on
  \<open>maxAttempts - i\<close>. With the defaults it makes at most 10 status checks, a delay of
  exactly 3000 ms after each check that neither ended the loop nor failed, so at most
  10 * 3000 ms of delay in all, and it ends by throwing or by returning a body whose status
  is succeeded. The prompt handler that calls it makes at most 10 status checks and waits
  at most 10 * 3000 ms, for every external service and every request.
\<close>

theorem pollForResult_bounded:
  "paced 3000 (fst (pollForResult up k s p 10 3000)) \<and>
   length (filter is_check (fst (pollForResult up k s p 10 3000))) \<le> 10 \<and>
   sleep_total (fst (pollForResult up k s p 10 3000)) \<le> 10 * 3000 \<and>
   ((\<exists>e. snd (pollForResult up k s p 10 3000) = Inl e) \<or>
    (\<exists>data. snd (pollForResult up k s p 10 3000) = Inr data \<and>
       getProp data ''status'' = Inr (Some (JStr ''succeeded'')))) \<and>
   length (filter is_check (fst (POST_prompt_poll up rq))) \<le> 10 \<and>
   sleep_total (fst (POST_prompt_poll up rq)) \<le> 10 * 3000"
proof -
  let ?R = "pollForResult up k s p 10 3000"
  have a: "paced 3000 (fst ?R)"
    unfolding pollForResult_def by (rule pollLoop_paced)
  have b: "length (filter is_check (fst ?R)) \<le> 10"
    unfolding pollForResult_def using pollLoop_checks [of up k s p 10 3000 0] by simp
  have c: "sleep_total (fst ?R) \<le> 10 * 3000"
    unfolding pollForResult_def using pollLoop_sleep [of up k s p 10 3000 0] by simp
  have d: "(\<exists>e. snd ?R = Inl e) \<or>
    (\<exists>data. snd ?R = Inr data \<and> getProp data ''status'' = Inr (Some (JStr ''succeeded'')))"
  proof (cases "snd ?R")
    case (Inl e)
    then show ?thesis by simp
  next
    case (Inr data)
    then show ?thesis
      using pollLoop_result [of up k s p 10 3000 0 data] by (simp add: pollForResult_def)
  qed
  from a b c d POST_prompt_poll_checks [of up rq] POST_prompt_poll_sleep [of up rq]
  show ?thesis by blast
qed

theorem pollForResult_bounded_witness:
  "length (filter is_check
     (fst (POST_prompt_poll (script (replicate 11 processing_response))
        (Inr text_prompt_body)))) \<le> 10 \<and>
   sleep_total
     (fst (POST_prompt_poll (script (replicate 11 processing_response))
        (Inr text_prompt_body))) \<le> 10 * 3000"
  using pollForResult_bounded [of "script (replicate 11 processing_response)" 1 None None
      "Inr text_prompt_body"]
  by simp

text \<open>
  C6, as stated, fails on the tenth iteration: its check is answered with a body whose
  status is processing, and the loop waits 3000 ms and throws the timeout error without a
  further attempt.
\<close>

theorem tenth_check_no_further_attempt:
  "script (replicate 11 processing_response) (1 + 9)
     (check_request (Some (JStr ''s1'')) (Some (JStr ''p1''))) = Inr processing_response \<and>
   ok processing_response \<and>
   resp_json processing_response =
     Inr (JObj [(''id'', JStr ''p1''), (''status'', JStr ''processing'')]) \<and>
   pollLoop (script (replicate 11 processing_response)) 1 (Some (JStr ''s1''))
     (Some (JStr ''p1'')) 10 3000 9 =
   ([Fetch (check_request (Some (JStr ''s1'')) (Some (JStr ''p1''))), Sleep 3000],
    Inl (Error ''Polling timed out, result not ready''))"
  by (simp add: pollLoop.simps script_def processing_response_def ok_def getProp_def)

text \<open>
  C6, amended. In an iteration of the polling loop (\<open>i < maxAttempts\<close>) whose check is
  answered ok with a body that parses: status succeeded makes the loop return that body;
  status failed makes it throw "Prompt failed to process"; any other status makes it wait
  the interval and go on, to a further check when attempts are left and to the timeout
  error when this was the last attempt.
\<close>

theorem pollLoop_iteration:
  assumes "i < maxAttempts"
    and "up (k + i) (check_request s p) = Inr check"
    and "ok check"
    and "resp_json check = Inr data"
    and "getProp data ''status'' = Inr st"
  shows "(st = Some (JStr ''succeeded'') \<longrightarrow>
            pollLoop up k s p maxAttempts interval i =
              ([Fetch (check_request s p)], Inr data)) \<and>
         (st = Some (JStr ''failed'') \<longrightarrow>
            pollLoop up k s p maxAttempts interval i =
              ([Fetch (check_request s p)], Inl (Error ''Prompt failed to process''))) \<and>
         (st \<noteq> Some (JStr ''succeeded'') \<and> st \<noteq> Some (JStr ''failed'') \<longrightarrow>
            pollLoop up k s p maxAttempts interval i =
              after [Fetch (check_request s p), Sleep interval]
                (pollLoop up k s p maxAttempts interval (Suc i)) \<and>
            (Suc i < maxAttempts \<longrightarrow>
               (\<exists>tr r. pollLoop up k s p maxAttempts interval (Suc i) =
                  (Fetch (check_request s p) # tr, r))) \<and>
            (\<not> Suc i < maxAttempts \<longrightarrow>
               pollLoop up k s p maxAttempts interval (Suc i) =
                 ([], Inl (Error ''Polling timed out, result not ready''))))"
proof (intro conjI impI)
  assume "st = Some (JStr ''succeeded'')"
  with assms show "pollLoop up k s p maxAttempts interval i =
      ([Fetch (check_request s p)], Inr data)"
    by (subst pollLoop.simps) simp
next
  assume "st = Some (JStr ''failed'')"
  with assms show "pollLoop up k s p maxAttempts interval i =
      ([Fetch (check_request s p)], Inl (Error ''Prompt failed to process''))"
    by (subst pollLoop.simps) simp
next
  assume "st \<noteq> Some (JStr ''succeeded'') \<and> st \<noteq> Some (JStr ''failed'')"
  with assms show "pollLoop up k s p maxAttempts interval i =
      after [Fetch (check_request s p), Sleep interval]
        (pollLoop up k s p maxAttempts interval (Suc i))"
    by (simp add: pollLoop_pending)
next
  assume "Suc i < maxAttempts"
  then show "\<exists>tr r. pollLoop up k s p maxAttempts interval (Suc i) =
      (Fetch (check_request s p) # tr, r)"
    by (rule pollLoop_first_fetch)
next
  assume "\<not> Suc i < maxAttempts"
  then show "pollLoop up k s p maxAttempts interval (Suc i) =
      ([], Inl (Error ''Polling timed out, result not ready''))"
    by (rule pollLoop_done)
qed

theorem pollLoop_iteration_witness:
  "pollLoop (script [processing_response, succeeded_response]) 0 (Some (JStr ''s1''))
     (Some (JStr ''p1'')) 10 3000 1 =
   ([Fetch (check_request (Some (JStr ''s1'')) (Some (JStr ''p1'')))],
    Inr (JObj [(''id'', JStr ''p1''), (''status'', JStr ''succeeded''),
        (''outputs'', JArr [JObj [(''url'', JStr ''https://example.org/cat.png'')]])]))"
  using pollLoop_iteration [of 1 10 "script [processing_response, succeeded_response]" 0
      "Some (JStr ''s1'')" "Some (JStr ''p1'')" succeeded_response
      "JObj [(''id'', JStr ''p1''), (''status'', JStr ''succeeded''),
        (''outputs'', JArr [JObj [(''url'', JStr ''https://example.org/cat.png'')]])]"
      "Some (JStr ''succeeded'')" 3000]
  by (simp add: script_def succeeded_response_def ok_def getProp_def)

text \<open>
  C1, as stated, fails when a status check is answered with a response that is not ok: no
  check shows a body with status succeeded or failed, and the loop throws the text of that
  response, not the timeout error.
\<close>

theorem poll_unavailable_not_timeout:
  "never_terminal (script [processing_response, unavailable_response]) 1
     (check_request (Some (JStr ''s1'')) (Some (JStr ''p1''))) 10 \<and>
   pollForResult (script [processing_response, unavailable_response]) 1
     (Some (JStr ''s1'')) (Some (JStr ''p1'')) 10 3000 =
   ([Fetch (check_request (Some (JStr ''s1'')) (Some (JStr ''p1'')))],
    Inl (Error ''Service Unavailable''))"
  by (simp add: never_terminal_def terminal_body_def pollForResult_def pollLoop.simps
        script_def unavailable_response_def ok_def upt_rec)

text \<open>
  C1, amended. When each of the 10 status checks is answered ok with a body that parses and
  whose status is neither succeeded nor failed, the polling loop makes the 10 checks, each
  followed by a delay of 3000 ms, and throws "Polling timed out, result not ready"; the
  prompt handler that entered the loop answers 500 with that message in \<open>error\<close>.
\<close>

theorem poll_timeout:
  assumes "all_pending up k (check_request s p) 10"
  shows "pollForResult up k s p 10 3000 =
           (concat (replicate 10 [Fetch (check_request s p), Sleep 3000]),
            Inl (Error ''Polling timed out, result not ready'')) \<and>
         (k = 1 \<and> destructure body = Inr f \<and> s = f ''stream_id'' \<and> truthy (f ''stream_id'') \<and>
          truthy (f ''prompt'') \<and>
          up 0 (prompts_request (f ''stream_id'') (f ''prompt'') (f ''image'')) = Inr response \<and>
          ok response \<and> resp_json response = Inr initial \<and>
          getProp initial ''id'' = Inr p \<and> truthy p \<and>
          getProp initial ''status'' = Inr st \<and> st \<noteq> Some (JStr ''succeeded'') \<longrightarrow>
          snd (POST_prompt_poll up (Inr body)) =
            Inr (error_reply ''Polling timed out, result not ready'' 500))"
proof -
  have "\<forall>j. 0 \<le> j \<and> j < 10 \<longrightarrow> pending (up (k + j) (check_request s p))"
    using assms by (simp add: all_pending_def list_all_iff)
  then have loop: "pollForResult up k s p 10 3000 =
      (concat (replicate 10 [Fetch (check_request s p), Sleep 3000]),
       Inl (Error ''Polling timed out, result not ready''))"
    unfolding pollForResult_def using pollLoop_all_pending [of 0 10 up k s p 3000] by simp
  show ?thesis
  proof (intro conjI impI)
    show "pollForResult up k s p 10 3000 =
      (concat (replicate 10 [Fetch (check_request s p), Sleep 3000]),
       Inl (Error ''Polling timed out, result not ready''))"
      by (rule loop)
  next
    assume frame: "k = 1 \<and> destructure body = Inr f \<and> s = f ''stream_id'' \<and>
      truthy (f ''stream_id'') \<and> truthy (f ''prompt'') \<and>
      up 0 (prompts_request (f ''stream_id'') (f ''prompt'') (f ''image'')) = Inr response \<and>
      ok response \<and> resp_json response = Inr initial \<and>
      getProp initial ''id'' = Inr p \<and> truthy p \<and>
      getProp initial ''status'' = Inr st \<and> st \<noteq> Some (JStr ''succeeded'')"
    then have "pollForResult up 1 (f ''stream_id'') p 10 3000 =
      (concat (replicate 10 [Fetch (check_request (f ''stream_id'') p), Sleep 3000]),
       Inl (Error ''Polling timed out, result not ready''))"
      using loop by simp
    with frame show "snd (POST_prompt_poll up (Inr body)) =
        Inr (error_reply ''Polling timed out, result not ready'' 500)"
      by (simp add: POST_prompt_poll_def run_simps await_pair snd_after catch_instanceof_def)
  qed
qed

theorem poll_timeout_witness:
  "pollForResult (script (replicate 11 processing_response)) 1 (Some (JStr ''s1''))
     (Some (JStr ''p1'')) 10 3000 =
   (concat (replicate 10
      [Fetch (check_request (Some (JStr ''s1'')) (Some (JStr ''p1''))), Sleep 3000]),
    Inl (Error ''Polling timed out, result not ready'')) \<and>
   snd (POST_prompt_poll (script (replicate 11 processing_response)) (Inr text_prompt_body)) =
     Inr (error_reply ''Polling timed out, result not ready'' 500)"
proof -
  have pend: "all_pending (script (replicate 11 processing_response)) 1
      (check_request (Some (JStr ''s1'')) (Some (JStr ''p1''))) 10"
    by (simp add: all_pending_def pending_def script_def processing_response_def ok_def
          getProp_def list_all_iff)
  show ?thesis
    using poll_timeout [OF pend, of text_prompt_body
        "map_of [(''stream_id'', JStr ''s1''), (''prompt'', JStr ''a cat'')]"
        processing_response
        "JObj [(''id'', JStr ''p1''), (''status'', JStr ''processing'')]"
        "Some (JStr ''processing'')"]
    by (simp add: text_prompt_body_def script_def processing_response_def ok_def getProp_def)
qed

section \<open>The handlers' checks of the request body\<close>

lemma oneshot_missing:
  "destructure body = Inr f \<Longrightarrow> \<not> truthy (f ''prompt'') \<Longrightarrow>
   POST_oneshot up (Inr body) = ([], Inr (error_reply ''Missing prompt'' 400))"
  by (simp add: POST_oneshot_def run_simps returns_def)

lemma stream_a_missing:
  "destructure body = Inr f \<Longrightarrow> \<not> truthy (f ''pipeline_id'') \<Longrightarrow>
   POST_stream_a up (Inr body) = ([], Inr (error_reply ''Missing pipeline_id'' 400))"
  by (simp add: POST_stream_a_def run_simps returns_def)

lemma stream_b_missing:
  "destructure body = Inr f \<Longrightarrow> \<not> truthy (f ''pipeline_id'') \<Longrightarrow>
   POST_stream_b up (Inr body) = ([], Inr (error_reply ''Missing pipeline_id'' 400))"
  by (simp add: POST_stream_b_def run_simps returns_def)

lemma prompt_poll_missing:
  "destructure body = Inr f \<Longrightarrow> \<not> truthy (f ''stream_id'') \<or> \<not> truthy (f ''prompt'') \<Longrightarrow>
   POST_prompt_poll up (Inr body) =
     ([], Inr (error_reply ''Missing required fields: stream_id and prompt are required'' 400))"
  by (simp add: POST_prompt_poll_def run_simps returns_def)

lemma prompt_image_missing:
  "destructure body = Inr f \<Longrightarrow>
   \<not> truthy (f ''stream_id'') \<or> \<not> truthy (f ''prompt'') \<or> \<not> truthy (f ''image'') \<Longrightarrow>
   POST_prompt_image up (Inr body) = ([], Inr (error_reply ''Missing required fields'' 400))"
  by (simp add: POST_prompt_image_def run_simps returns_def)

text \<open>
  C2, as stated, fails for the request body \<^verbatim>\<open>null\<close>, which lacks every field: reading
  its fields throws, so the handlers that read the body inside their \<^verbatim>\<open>try\<close> block answer
  500, and the two that read it before throw out of the handler; none answers 400.
\<close>

theorem null_body_not_400:
  "status_of (POST_oneshot (script [succeeded_response]) (Inr JNull)) = Some 500 \<and>
   status_of (POST_stream_b (script [succeeded_response]) (Inr JNull)) = Some 500 \<and>
   status_of (POST_prompt_poll (script [succeeded_response]) (Inr JNull)) = Some 500 \<and>
   status_of (POST_stream_a (script [succeeded_response]) (Inr JNull)) = None \<and>
   status_of (POST_prompt_image (script [succeeded_response]) (Inr JNull)) = None"
  by (simp add: POST_oneshot_def POST_stream_a_def POST_stream_b_def POST_prompt_poll_def
        POST_prompt_image_def run_simps status_of_def catch_instanceof_def error_reply_def)

text \<open>
  C2, amended. A request whose body is a JSON value other than null and lacks a required
  field (the field reads as undefined, which is falsy; the same holds for any falsy value)
  is answered 400 with an \<open>error\<close> string, and the run has no event, so nothing is sent to
  the external API: prompt for the oneshot handler, pipeline_id for both stream handlers,
  stream_id or prompt for both prompt handlers.
\<close>

theorem missing_field_400:
  assumes "body \<noteq> JNull"
  shows "\<exists>f. destructure body = Inr f \<and>
         (\<not> truthy (f ''prompt'') \<longrightarrow>
            POST_oneshot up (Inr body) = ([], Inr (error_reply ''Missing prompt'' 400))) \<and>
         (\<not> truthy (f ''pipeline_id'') \<longrightarrow>
            POST_stream_a up (Inr body) = ([], Inr (error_reply ''Missing pipeline_id'' 400)) \<and>
            POST_stream_b up (Inr body) = ([], Inr (error_reply ''Missing pipeline_id'' 400))) \<and>
         (\<not> truthy (f ''stream_id'') \<or> \<not> truthy (f ''prompt'') \<longrightarrow>
            POST_prompt_poll up (Inr body) =
              ([], Inr (error_reply
                 ''Missing required fields: stream_id and prompt are required'' 400)) \<and>
            POST_prompt_image up (Inr body) =
              ([], Inr (error_reply ''Missing required fields'' 400)))"
proof -
  obtain f where f: "destructure body = Inr f"
    using destructure_not_null [OF assms] by blast
  show ?thesis
    using f oneshot_missing [of body f up] stream_a_missing [of body f up]
      stream_b_missing [of body f up] prompt_poll_missing [of body f up]
      prompt_image_missing [of body f up]
    by blast
qed

theorem missing_field_400_witness:
  "POST_oneshot (script [succeeded_response])
     (Inr (JObj [(''image'', JStr ''data:image/png'')])) =
     ([], Inr (error_reply ''Missing prompt'' 400)) \<and>
   POST_stream_a (script [succeeded_response])
     (Inr (JObj [(''image'', JStr ''data:image/png'')])) =
     ([], Inr (error_reply ''Missing pipeline_id'' 400)) \<and>
   POST_stream_b (script [succeeded_response])
     (Inr (JObj [(''image'', JStr ''data:image/png'')])) =
     ([], Inr (error_reply ''Missing pipeline_id'' 400)) \<and>
   POST_prompt_poll (script [succeeded_response])
     (Inr (JObj [(''image'', JStr ''data:image/png'')])) =
     ([], Inr (error_reply ''Missing required fields: stream_id and prompt are required''
        400)) \<and>
   POST_prompt_image (script [succeeded_response])
     (Inr (JObj [(''image'', JStr ''data:image/png'')])) =
     ([], Inr (error_reply ''Missing required fields'' 400))"
  using missing_field_400 [of "JObj [(''image'', JStr ''data:image/png'')]"
      "script [succeeded_response]"]
  by auto

section \<open>Exceptions\<close>

lemma wrapped_handlers_catch:
  "POST_oneshot up (Inl e) = ([], Inr (catch_instanceof e))"
  "POST_stream_b up (Inl e) = ([], Inr (catch_instanceof e))"
  "POST_prompt_poll up (Inl e) = ([], Inr (catch_instanceof e))"
  by (simp_all add: POST_oneshot_def POST_stream_b_def POST_prompt_poll_def run_simps)

text \<open>
  C5 fails on two handlers. The stream handler of part_000 lines 25-54 and the prompt handler
  of part_001 read the request body before their \<^verbatim>\<open>try\<close> block: when the body does not
  parse, the rejection of \<^verbatim>\<open>req.json()\<close> is thrown out of the handler, with no request
  sent and no reply made.
\<close>

theorem body_parse_error_escapes:
  "POST_stream_a up (Inl e) = ([], Inl e) \<and> POST_prompt_image up (Inl e) = ([], Inl e)"
  by (simp add: POST_stream_a_def POST_prompt_image_def run_simps)

theorem body_parse_error_escapes_witness:
  "POST_stream_a (script []) (Inl (Error ''Unexpected end of JSON input'')) =
     ([], Inl (Error ''Unexpected end of JSON input'')) \<and>
   POST_prompt_image (script []) (Inl (Error ''Unexpected end of JSON input'')) =
     ([], Inl (Error ''Unexpected end of JSON input''))"
  using body_parse_error_escapes [of "script []" "Error ''Unexpected end of JSON input''"]
  by simp

section \<open>Relaying the external service's answer\<close>

lemma relay_oneshot:
  assumes "destructure body = Inr f" and "truthy (f ''prompt'')"
    and "up 0 (oneshot_request (f ''prompt'') (f ''image'')) = Inr response"
  shows "(\<not> ok response \<and> resp_text response = Inr t \<longrightarrow>
            (300 \<le> resp_status response \<and> resp_status response \<le> 599 \<and>
             resp_status response \<noteq> 304 \<longrightarrow>
               POST_oneshot up (Inr body) =
                 ([Fetch (oneshot_request (f ''prompt'') (f ''image''))],
                  Inr (error_reply t (resp_status response)))) \<and>
            (resp_status response < 200 \<or> resp_status response = 304 \<or>
             599 < resp_status response \<longrightarrow>
               fst (POST_oneshot up (Inr body)) =
                 [Fetch (oneshot_request (f ''prompt'') (f ''image''))] \<and>
               status_of (POST_oneshot up (Inr body)) = Some 500)) \<and>
         (ok response \<and> resp_json response = Inr data \<longrightarrow>
            POST_oneshot up (Inr body) =
              ([Fetch (oneshot_request (f ''prompt'') (f ''image''))],
               Inr (json_reply data)))"
  using assms
  by (auto simp: POST_oneshot_def run_simps NextResponse_json_def null_body_status_def
        error_reply_def status_of_def catch_instanceof_def ok_def split: thrown.splits)

lemma relay_stream_a:
  assumes "destructure body = Inr f" and "truthy (f ''pipeline_id'')"
    and "up 0 (streams_request (f ''pipeline_id'')) = Inr response"
  shows "(\<not> ok response \<and> resp_text response = Inr t \<longrightarrow>
            (300 \<le> resp_status response \<and> resp_status response \<le> 599 \<and>
             resp_status response \<noteq> 304 \<longrightarrow>
               POST_stream_a up (Inr body) =
                 ([Fetch (streams_request (f ''pipeline_id''))],
                  Inr (error_reply t (resp_status response)))) \<and>
            (resp_status response < 200 \<or> resp_status response = 304 \<or>
             599 < resp_status response \<longrightarrow>
               fst (POST_stream_a up (Inr body)) =
                 [Fetch (streams_request (f ''pipeline_id''))] \<and>
               status_of (POST_stream_a up (Inr body)) = Some 500)) \<and>
         (ok response \<and> resp_json response = Inr data \<longrightarrow>
            POST_stream_a up (Inr body) =
              ([Fetch (streams_request (f ''pipeline_id''))],
               Inr (json_reply data)))"
  using assms
  by (auto simp: POST_stream_a_def run_simps NextResponse_json_def null_body_status_def
        error_reply_def status_of_def catch_any_def ok_def split: thrown.splits)

lemma relay_stream_b:
  assumes "destructure body = Inr f" and "truthy (f ''pipeline_id'')"
    and "up 0 (streams_request (f ''pipeline_id'')) = Inr response"
  shows "(\<not> ok response \<and> resp_text response = Inr t \<longrightarrow>
            (300 \<le> resp_status response \<and> resp_status response \<le> 599 \<and>
             resp_status response \<noteq> 304 \<longrightarrow>
               POST_stream_b up (Inr body) =
                 ([Fetch (streams_request (f ''pipeline_id''))],
                  Inr (error_reply t (resp_status response)))) \<and>
            (resp_status response < 200 \<or> resp_status response = 304 \<or>
             599 < resp_status response \<longrightarrow>
               fst (POST_stream_b up (Inr body)) =
                 [Fetch (streams_request (f ''pipeline_id''))] \<and>
               status_of (POST_stream_b up (Inr body)) = Some 500)) \<and>
         (ok response \<and> resp_json response = Inr data \<longrightarrow>
            POST_stream_b up (Inr body) =
              ([Fetch (streams_request (f ''pipeline_id''))],
               Inr (json_reply data)))"
  using assms
  by (auto simp: POST_stream_b_def run_simps NextResponse_json_def null_body_status_def
        error_reply_def status_of_def catch_instanceof_def ok_def split: thrown.splits)

lemma relay_prompt_image:
  assumes "destructure body = Inr f" and "truthy (f ''stream_id'') \<and> truthy (f ''prompt'') \<and> truthy (f ''image'')"
    and "up 0 (prompt_image_request (f ''stream_id'') (f ''prompt'') (f ''image'')) = Inr response"
  shows "(\<not> ok response \<and> resp_text response = Inr t \<longrightarrow>
            (300 \<le> resp_status response \<and> resp_status response \<le> 599 \<and>
             resp_status response \<noteq> 304 \<longrightarrow>
               POST_prompt_image up (Inr body) =
                 ([Fetch (prompt_image_request (f ''stream_id'') (f ''prompt'') (f ''image''))],
                  Inr (error_reply t (resp_status response)))) \<and>
            (resp_status response < 200 \<or> resp_status response = 304 \<or>
             599 < resp_status response \<longrightarrow>
               fst (POST_prompt_image up (Inr body)) =
                 [Fetch (prompt_image_request (f ''stream_id'') (f ''prompt'') (f ''image''))] \<and>
               status_of (POST_prompt_image up (Inr body)) = Some 500)) \<and>
         (ok response \<and> resp_json response = Inr data \<longrightarrow>
            POST_prompt_image up (Inr body) =
              ([Fetch (prompt_image_request (f ''stream_id'') (f ''prompt'') (f ''image''))],
               Inr (json_reply data)))"
  using assms
  by (auto simp: POST_prompt_image_def run_simps NextResponse_json_def null_body_status_def
        error_reply_def status_of_def catch_any_def ok_def split: thrown.splits)

lemma relay_prompt_poll:
  assumes "destructure body = Inr f" and "truthy (f ''stream_id'') \<and> truthy (f ''prompt'')"
    and "up 0 (prompts_request (f ''stream_id'') (f ''prompt'') (f ''image'')) = Inr response"
  shows "\<not> ok response \<and> resp_text response = Inr t \<longrightarrow>
            (300 \<le> resp_status response \<and> resp_status response \<le> 599 \<and>
             resp_status response \<noteq> 304 \<longrightarrow>
               POST_prompt_poll up (Inr body) =
                 ([Fetch (prompts_request (f ''stream_id'') (f ''prompt'') (f ''image''))],
                  Inr (error_reply t (resp_status response)))) \<and>
            (resp_status response < 200 \<or> resp_status response = 304 \<or>
             599 < resp_status response \<longrightarrow>
               fst (POST_prompt_poll up (Inr body)) =
                 [Fetch (prompts_request (f ''stream_id'') (f ''prompt'') (f ''image''))] \<and>
               status_of (POST_prompt_poll up (Inr body)) = Some 500)"
  using assms
  by (auto simp: POST_prompt_poll_def run_simps NextResponse_json_def null_body_status_def
        error_reply_def status_of_def catch_instanceof_def ok_def split: thrown.splits)

lemma null_prompt_poll:
  assumes "destructure body = Inr f" and "truthy (f ''stream_id'')" and "truthy (f ''prompt'')"
    and "up 0 (prompts_request (f ''stream_id'') (f ''prompt'') (f ''image'')) = Inr response"
    and "ok response" and "resp_json response = Inr JNull"
  shows "fst (POST_prompt_poll up (Inr body)) =
           [Fetch (prompts_request (f ''stream_id'') (f ''prompt'') (f ''image''))] \<and>
         status_of (POST_prompt_poll up (Inr body)) = Some 500"
  using assms
  by (simp add: POST_prompt_poll_def run_simps getProp_null status_of_def
        catch_instanceof_def error_reply_def)

lemma quiet_prompt_poll:
  assumes "destructure body = Inr f" and "truthy (f ''stream_id'')" and "truthy (f ''prompt'')"
    and "up 0 (prompts_request (f ''stream_id'') (f ''prompt'') (f ''image'')) = Inr response"
    and "ok response" and "resp_json response = Inr initial"
    and "getProp initial ''id'' = Inr initial_id"
    and "getProp initial ''status'' = Inr initial_status"
    and "\<not> truthy initial_id \<or> initial_status = Some (JStr ''succeeded'')"
  shows "POST_prompt_poll up (Inr body) =
           ([Fetch (prompts_request (f ''stream_id'') (f ''prompt'') (f ''image''))],
            Inr (json_reply initial))"
  using assms by (auto simp: POST_prompt_poll_def run_simps returns_def)

lemma enter_prompt_poll:
  assumes "destructure body = Inr f"
    and "truthy (f ''stream_id'')" and "truthy (f ''prompt'')"
    and "up 0 (prompts_request (f ''stream_id'') (f ''prompt'') (f ''image'')) = Inr response"
    and "ok response" and "resp_json response = Inr initial"
    and "getProp initial ''id'' = Inr initial_id" and "truthy initial_id"
    and "getProp initial ''status'' = Inr initial_status"
    and "initial_status \<noteq> Some (JStr ''succeeded'')"
  shows "POST_prompt_poll up (Inr body) =
           after [Fetch (prompts_request (f ''stream_id'') (f ''prompt'') (f ''image''))]
             (try_catch
                (await (pollForResult up 1 (f ''stream_id'') initial_id 10 3000)
                   (\<lambda>finalData. returns (json_reply finalData)))
                catch_instanceof)"
  using assms by (simp add: POST_prompt_poll_def run_simps)


lemma checks_only_when_polling:
  assumes "list_ex is_check (fst (POST_prompt_poll up rq))"
  shows "\<exists>body f response initial initial_id initial_status.
           rq = Inr body \<and> destructure body = Inr f \<and>
           up 0 (prompts_request (f ''stream_id'') (f ''prompt'') (f ''image'')) = Inr response \<and>
           ok response \<and> resp_json response = Inr initial \<and>
           getProp initial ''id'' = Inr initial_id \<and> truthy initial_id \<and>
           getProp initial ''status'' = Inr initial_status \<and>
           initial_status \<noteq> Some (JStr ''succeeded'')"
proof (cases rq)
  case (Inl e)
  with assms show ?thesis by (simp add: POST_prompt_poll_def run_simps)
next
  case body: (Inr body)
  show ?thesis
  proof (cases "destructure body")
    case (Inl e)
    with assms body show ?thesis by (simp add: POST_prompt_poll_def run_simps)
  next
    case f: (Inr f)
    let ?rq = "prompts_request (f ''stream_id'') (f ''prompt'') (f ''image'')"
    show ?thesis
    proof (cases "truthy (f ''stream_id'') \<and> truthy (f ''prompt'')")
      case False
      with assms body f show ?thesis
        by (auto simp: POST_prompt_poll_def run_simps returns_def)
    next
      case fields: True
      show ?thesis
      proof (cases "up 0 ?rq")
        case (Inl e)
        with assms body f fields show ?thesis
          by (simp add: POST_prompt_poll_def run_simps req_method_requests)
      next
        case response: (Inr response)
        show ?thesis
        proof (cases "ok response")
          case False
          with assms body f fields response show ?thesis
            by (simp add: POST_prompt_poll_def run_simps req_method_requests fst_after
                  returns_def split: sum.splits)
        next
          case ok: True
          show ?thesis
          proof (cases "resp_json response")
            case (Inl e)
            with assms body f fields response ok show ?thesis
              by (simp add: POST_prompt_poll_def run_simps req_method_requests)
          next
            case initial: (Inr initial)
            show ?thesis
            proof (cases "getProp initial ''id''")
              case (Inl e)
              with assms body f fields response ok initial show ?thesis
                by (simp add: POST_prompt_poll_def run_simps req_method_requests)
            next
              case initial_id: (Inr initial_id)
              then obtain initial_status where
                st: "getProp initial ''status'' = Inr initial_status"
                by (auto simp: getProp_def split: sum.splits)
              have "truthy initial_id \<and> initial_status \<noteq> Some (JStr ''succeeded'')"
              proof (rule ccontr)
                assume "\<not> (truthy initial_id \<and> initial_status \<noteq> Some (JStr ''succeeded''))"
                then have "POST_prompt_poll up (Inr body) = ([Fetch ?rq], Inr (json_reply initial))"
                  using quiet_prompt_poll [of body f up response initial initial_id
                      initial_status] f fields response ok initial initial_id st
                  by blast
                with assms body show False by (simp add: req_method_requests)
              qed
              with body f fields response ok initial initial_id st show ?thesis by blast
            qed
          qed
        qed
      qed
    qed
  qed
qed

lemma poll_outcome_reply:
  "snd (try_catch (await m (\<lambda>finalData. returns (json_reply finalData))) catch_instanceof) =
     Inr (case snd m of Inl e \<Rightarrow> catch_instanceof e | Inr finalData \<Rightarrow> json_reply finalData)"
  by (cases m) (simp add: await_pair try_catch_pair after_returns split: sum.splits)

lemma polled_prompt_poll:
  assumes "destructure body = Inr f" and "truthy (f ''stream_id'')" and "truthy (f ''prompt'')"
    and "up 0 (prompts_request (f ''stream_id'') (f ''prompt'') (f ''image'')) = Inr response"
    and "ok response" and "resp_json response = Inr initial"
    and "getProp initial ''id'' = Inr initial_id" and "truthy initial_id"
    and "getProp initial ''status'' = Inr initial_status"
    and "initial_status \<noteq> Some (JStr ''succeeded'')"
  shows "snd (POST_prompt_poll up (Inr body)) =
           Inr (case snd (pollForResult up 1 (f ''stream_id'') initial_id 10 3000) of
                  Inl e \<Rightarrow> catch_instanceof e
                | Inr finalData \<Rightarrow> json_reply finalData)"
    and "(\<exists>finalData. snd (POST_prompt_poll up (Inr body)) = Inr (json_reply finalData) \<and>
            getProp finalData ''status'' = Inr (Some (JStr ''succeeded''))) \<or>
         status_of (POST_prompt_poll up (Inr body)) = Some 500"
proof -
  let ?R = "pollForResult up 1 (f ''stream_id'') initial_id 10 3000"
  show eq: "snd (POST_prompt_poll up (Inr body)) =
      Inr (case snd ?R of Inl e \<Rightarrow> catch_instanceof e | Inr finalData \<Rightarrow> json_reply finalData)"
    using enter_prompt_poll [of body f up response initial initial_id initial_status] assms
    by (simp add: snd_after poll_outcome_reply)
  show "(\<exists>finalData. snd (POST_prompt_poll up (Inr body)) = Inr (json_reply finalData) \<and>
            getProp finalData ''status'' = Inr (Some (JStr ''succeeded''))) \<or>
         status_of (POST_prompt_poll up (Inr body)) = Some 500"
  proof (cases "snd ?R")
    case (Inl e)
    with eq have "snd (POST_prompt_poll up (Inr body)) = Inr (catch_instanceof e)" by simp
    then have "status_of (POST_prompt_poll up (Inr body)) = Some 500"
      by (cases e) (simp_all add: status_of_def catch_instanceof_def error_reply_def)
    then show ?thesis by simp
  next
    case (Inr finalData)
    then have "getProp finalData ''status'' = Inr (Some (JStr ''succeeded''))"
      using pollLoop_result [of up 1 "f ''stream_id''" initial_id 10 3000 0 finalData]
      by (simp add: pollForResult_def)
    with eq Inr show ?thesis by auto
  qed
qed

text \<open>
  C3, as stated, fails on the prompt handler with polling: the external service answers both
  of the run's requests with an ok response, and the handler answers 500 with "Prompt failed
  to process", not a JSON body of the service.
\<close>

theorem prompt_ok_upstream_yet_500:
  "ok processing_response \<and> ok failed_response \<and>
   POST_prompt_poll (script [processing_response, failed_response]) (Inr text_prompt_body) =
     ([Fetch (prompts_request (Some (JStr ''s1'')) (Some (JStr ''a cat'')) None),
       Fetch (check_request (Some (JStr ''s1'')) (Some (JStr ''p1'')))],
      Inr (error_reply ''Prompt failed to process'' 500))"
  by (simp add: POST_prompt_poll_def run_simps await_pair returns_def pollForResult_def
        pollLoop.simps script_def processing_response_def failed_response_def ok_def
        getProp_def text_prompt_body_def catch_instanceof_def)

text \<open>
  C3, amended. For a request that passes the handler's check of its fields, when the first
  fetch is answered with a response that is not ok (and whose text can be read): every
  handler answers that status code with the text in \<open>error\<close> when the code is one a reply
  with a body can carry (300-599 other than 304); for any other code the making of the
  reply throws and the handler answers 500. When the first fetch is answered ok with a body
  that parses, the oneshot handler, both stream handlers and the prompt handler of part_001
  answer the parsed body unchanged with status 200. The prompt handler with polling answers
  500 when that body is null; when it is not null, it answers it unchanged if it has no
  truthy id or its status is succeeded, and otherwise answers what the polling loop gives:
  the body of a check whose status is succeeded, or 500 with the message of the error the
  loop threw.
\<close>

theorem upstream_relayed:
  assumes "destructure body = Inr f"
  shows "(truthy (f ''prompt'') \<and>
          up 0 (oneshot_request (f ''prompt'') (f ''image'')) = Inr response \<longrightarrow>
            (\<not> ok response \<and> resp_text response = Inr t \<longrightarrow>
               (300 \<le> resp_status response \<and> resp_status response \<le> 599 \<and>
                resp_status response \<noteq> 304 \<longrightarrow>
                  snd (POST_oneshot up (Inr body)) =
                    Inr (error_reply t (resp_status response))) \<and>
               (resp_status response < 200 \<or> resp_status response = 304 \<or>
                599 < resp_status response \<longrightarrow>
                  status_of (POST_oneshot up (Inr body)) = Some 500)) \<and>
            (ok response \<and> resp_json response = Inr data \<longrightarrow>
               snd (POST_oneshot up (Inr body)) = Inr (json_reply data))) \<and>
         (truthy (f ''pipeline_id'') \<and>
          up 0 (streams_request (f ''pipeline_id'')) = Inr response \<longrightarrow>
            (\<not> ok response \<and> resp_text response = Inr t \<longrightarrow>
               (300 \<le> resp_status response \<and> resp_status response \<le> 599 \<and>
                resp_status response \<noteq> 304 \<longrightarrow>
                  snd (POST_stream_a up (Inr body)) =
                    Inr (error_reply t (resp_status response)) \<and>
                  snd (POST_stream_b up (Inr body)) =
                    Inr (error_reply t (resp_status response))) \<and>
               (resp_status response < 200 \<or> resp_status response = 304 \<or>
                599 < resp_status response \<longrightarrow>
                  status_of (POST_stream_a up (Inr body)) = Some 500 \<and>
                  status_of (POST_stream_b up (Inr body)) = Some 500)) \<and>
            (ok response \<and> resp_json response = Inr data \<longrightarrow>
               snd (POST_stream_a up (Inr body)) = Inr (json_reply data) \<and>
               snd (POST_stream_b up (Inr body)) = Inr (json_reply data))) \<and>
         (truthy (f ''stream_id'') \<and> truthy (f ''prompt'') \<and> truthy (f ''image'') \<and>
          up 0 (prompt_image_request (f ''stream_id'') (f ''prompt'') (f ''image'')) =
            Inr response \<longrightarrow>
            (\<not> ok response \<and> resp_text response = Inr t \<longrightarrow>
               (300 \<le> resp_status response \<and> resp_status response \<le> 599 \<and>
                resp_status response \<noteq> 304 \<longrightarrow>
                  snd (POST_prompt_image up (Inr body)) =
                    Inr (error_reply t (resp_status response))) \<and>
               (resp_status response < 200 \<or> resp_status response = 304 \<or>
                599 < resp_status response \<longrightarrow>
                  status_of (POST_prompt_image up (Inr body)) = Some 500)) \<and>
            (ok response \<and> resp_json response = Inr data \<longrightarrow>
               snd (POST_prompt_image up (Inr body)) = Inr (json_reply data))) \<and>
         (truthy (f ''stream_id'') \<and> truthy (f ''prompt'') \<and>
          up 0 (prompts_request (f ''stream_id'') (f ''prompt'') (f ''image'')) =
            Inr response \<longrightarrow>
            (\<not> ok response \<and> resp_text response = Inr t \<longrightarrow>
               (300 \<le> resp_status response \<and> resp_status response \<le> 599 \<and>
                resp_status response \<noteq> 304 \<longrightarrow>
                  snd (POST_prompt_poll up (Inr body)) =
                    Inr (error_reply t (resp_status response))) \<and>
               (resp_status response < 200 \<or> resp_status response = 304 \<or>
                599 < resp_status response \<longrightarrow>
                  status_of (POST_prompt_poll up (Inr body)) = Some 500)) \<and>
            (ok response \<and> resp_json response = Inr data \<longrightarrow>
               (data = JNull \<longrightarrow> status_of (POST_prompt_poll up (Inr body)) = Some 500) \<and>
               (data \<noteq> JNull \<longrightarrow>
                  (\<exists>initial_id initial_status.
                     getProp data ''id'' = Inr initial_id \<and>
                     getProp data ''status'' = Inr initial_status \<and>
                     (\<not> truthy initial_id \<or> initial_status = Some (JStr ''succeeded'') \<longrightarrow>
                        snd (POST_prompt_poll up (Inr body)) = Inr (json_reply data)) \<and>
                     (truthy initial_id \<and> initial_status \<noteq> Some (JStr ''succeeded'') \<longrightarrow>
                        snd (POST_prompt_poll up (Inr body)) =
                          Inr (case snd (pollForResult up 1 (f ''stream_id'') initial_id
                                      10 3000) of
                                 Inl e \<Rightarrow> catch_instanceof e
                               | Inr finalData \<Rightarrow> json_reply finalData) \<and>
                        ((\<exists>finalData.
                            snd (POST_prompt_poll up (Inr body)) =
                              Inr (json_reply finalData) \<and>
                            getProp finalData ''status'' =
                              Inr (Some (JStr ''succeeded''))) \<or>
                         status_of (POST_prompt_poll up (Inr body)) = Some 500))))))"
proof (intro conjI)
  show "truthy (f ''prompt'') \<and>
          up 0 (oneshot_request (f ''prompt'') (f ''image'')) = Inr response \<longrightarrow>
            (\<not> ok response \<and> resp_text response = Inr t \<longrightarrow>
               (300 \<le> resp_status response \<and> resp_status response \<le> 599 \<and>
                resp_status response \<noteq> 304 \<longrightarrow>
                  snd (POST_oneshot up (Inr body)) =
                    Inr (error_reply t (resp_status response))) \<and>
               (resp_status response < 200 \<or> resp_status response = 304 \<or>
                599 < resp_status response \<longrightarrow>
                  status_of (POST_oneshot up (Inr body)) = Some 500)) \<and>
            (ok response \<and> resp_json response = Inr data \<longrightarrow>
               snd (POST_oneshot up (Inr body)) = Inr (json_reply data))"
    using relay_oneshot [OF assms, of up response t data] by simp
next
  show "truthy (f ''pipeline_id'') \<and>
          up 0 (streams_request (f ''pipeline_id'')) = Inr response \<longrightarrow>
            (\<not> ok response \<and> resp_text response = Inr t \<longrightarrow>
               (300 \<le> resp_status response \<and> resp_status response \<le> 599 \<and>
                resp_status response \<noteq> 304 \<longrightarrow>
                  snd (POST_stream_a up (Inr body)) =
                    Inr (error_reply t (resp_status response)) \<and>
                  snd (POST_stream_b up (Inr body)) =
                    Inr (error_reply t (resp_status response))) \<and>
               (resp_status response < 200 \<or> resp_status response = 304 \<or>
                599 < resp_status response \<longrightarrow>
                  status_of (POST_stream_a up (Inr body)) = Some 500 \<and>
                  status_of (POST_stream_b up (Inr body)) = Some 500)) \<and>
            (ok response \<and> resp_json response = Inr data \<longrightarrow>
               snd (POST_stream_a up (Inr body)) = Inr (json_reply data) \<and>
               snd (POST_stream_b up (Inr body)) = Inr (json_reply data))"
    using relay_stream_a [OF assms, of up response t data]
      relay_stream_b [OF assms, of up response t data]
    by simp
next
  show "truthy (f ''stream_id'') \<and> truthy (f ''prompt'') \<and> truthy (f ''image'') \<and>
          up 0 (prompt_image_request (f ''stream_id'') (f ''prompt'') (f ''image'')) =
            Inr response \<longrightarrow>
            (\<not> ok response \<and> resp_text response = Inr t \<longrightarrow>
               (300 \<le> resp_status response \<and> resp_status response \<le> 599 \<and>
                resp_status response \<noteq> 304 \<longrightarrow>
                  snd (POST_prompt_image up (Inr body)) =
                    Inr (error_reply t (resp_status response))) \<and>
               (resp_status response < 200 \<or> resp_status response = 304 \<or>
                599 < resp_status response \<longrightarrow>
                  status_of (POST_prompt_image up (Inr body)) = Some 500)) \<and>
            (ok response \<and> resp_json response = Inr data \<longrightarrow>
               snd (POST_prompt_image up (Inr body)) = Inr (json_reply data))"
    using relay_prompt_image [OF assms, of up response t data] by simp
next
  show "truthy (f ''stream_id'') \<and> truthy (f ''prompt'') \<and>
          up 0 (prompts_request (f ''stream_id'') (f ''prompt'') (f ''image'')) =
            Inr response \<longrightarrow>
            (\<not> ok response \<and> resp_text response = Inr t \<longrightarrow>
               (300 \<le> resp_status response \<and> resp_status response \<le> 599 \<and>
                resp_status response \<noteq> 304 \<longrightarrow>
                  snd (POST_prompt_poll up (Inr body)) =
                    Inr (error_reply t (resp_status response))) \<and>
               (resp_status response < 200 \<or> resp_status response = 304 \<or>
                599 < resp_status response \<longrightarrow>
                  status_of (POST_prompt_poll up (Inr body)) = Some 500)) \<and>
            (ok response \<and> resp_json response = Inr data \<longrightarrow>
               (data = JNull \<longrightarrow> status_of (POST_prompt_poll up (Inr body)) = Some 500) \<and>
               (data \<noteq> JNull \<longrightarrow>
                  (\<exists>initial_id initial_status.
                     getProp data ''id'' = Inr initial_id \<and>
                     getProp data ''status'' = Inr initial_status \<and>
                     (\<not> truthy initial_id \<or> initial_status = Some (JStr ''succeeded'') \<longrightarrow>
                        snd (POST_prompt_poll up (Inr body)) = Inr (json_reply data)) \<and>
                     (truthy initial_id \<and> initial_status \<noteq> Some (JStr ''succeeded'') \<longrightarrow>
                        snd (POST_prompt_poll up (Inr body)) =
                          Inr (case snd (pollForResult up 1 (f ''stream_id'') initial_id
                                      10 3000) of
                                 Inl e \<Rightarrow> catch_instanceof e
                               | Inr finalData \<Rightarrow> json_reply finalData) \<and>
                        ((\<exists>finalData.
                            snd (POST_prompt_poll up (Inr body)) =
                              Inr (json_reply finalData) \<and>
                            getProp finalData ''status'' =
                              Inr (Some (JStr ''succeeded''))) \<or>
                         status_of (POST_prompt_poll up (Inr body)) = Some 500)))))"
  proof (intro impI conjI)
    assume frame: "truthy (f ''stream_id'') \<and> truthy (f ''prompt'') \<and>
      up 0 (prompts_request (f ''stream_id'') (f ''prompt'') (f ''image'')) = Inr response"
    {
      assume "\<not> ok response \<and> resp_text response = Inr t"
        and "300 \<le> resp_status response \<and> resp_status response \<le> 599 \<and>
          resp_status response \<noteq> 304"
      then show "snd (POST_prompt_poll up (Inr body)) =
          Inr (error_reply t (resp_status response))"
        using relay_prompt_poll [OF assms, of up response t] frame by simp
    next
      assume "\<not> ok response \<and> resp_text response = Inr t"
        and "resp_status response < 200 \<or> resp_status response = 304 \<or>
          599 < resp_status response"
      then show "status_of (POST_prompt_poll up (Inr body)) = Some 500"
        using relay_prompt_poll [OF assms, of up response t] frame by simp
    next
      assume "ok response \<and> resp_json response = Inr data" and "data = JNull"
      then show "status_of (POST_prompt_poll up (Inr body)) = Some 500"
        using null_prompt_poll [OF assms, of up response] frame by simp
    next
      assume okd: "ok response \<and> resp_json response = Inr data" and nn: "data \<noteq> JNull"
      obtain initial_id where id: "getProp data ''id'' = Inr initial_id"
        using getProp_not_null [OF nn] by blast
      obtain initial_status where st: "getProp data ''status'' = Inr initial_status"
        using getProp_not_null [OF nn] by blast
      have quiet: "\<not> truthy initial_id \<or> initial_status = Some (JStr ''succeeded'') \<longrightarrow>
          snd (POST_prompt_poll up (Inr body)) = Inr (json_reply data)"
        using quiet_prompt_poll [of body f up response data initial_id initial_status]
          assms frame okd id st
        by auto
      have polled: "truthy initial_id \<and> initial_status \<noteq> Some (JStr ''succeeded'') \<longrightarrow>
          snd (POST_prompt_poll up (Inr body)) =
            Inr (case snd (pollForResult up 1 (f ''stream_id'') initial_id 10 3000) of
                   Inl e \<Rightarrow> catch_instanceof e
                 | Inr finalData \<Rightarrow> json_reply finalData) \<and>
          ((\<exists>finalData.
              snd (POST_prompt_poll up (Inr body)) = Inr (json_reply finalData) \<and>
              getProp finalData ''status'' = Inr (Some (JStr ''succeeded''))) \<or>
           status_of (POST_prompt_poll up (Inr body)) = Some 500)"
        using polled_prompt_poll [of body f up response data initial_id initial_status]
          assms frame okd id st
        by blast
      from id st quiet polled
      show "\<exists>initial_id initial_status.
          getProp data ''id'' = Inr initial_id \<and>
          getProp data ''status'' = Inr initial_status \<and>
          (\<not> truthy initial_id \<or> initial_status = Some (JStr ''succeeded'') \<longrightarrow>
             snd (POST_prompt_poll up (Inr body)) = Inr (json_reply data)) \<and>
          (truthy initial_id \<and> initial_status \<noteq> Some (JStr ''succeeded'') \<longrightarrow>
             snd (POST_prompt_poll up (Inr body)) =
               Inr (case snd (pollForResult up 1 (f ''stream_id'') initial_id 10 3000) of
                      Inl e \<Rightarrow> catch_instanceof e
                    | Inr finalData \<Rightarrow> json_reply finalData) \<and>
             ((\<exists>finalData.
                 snd (POST_prompt_poll up (Inr body)) = Inr (json_reply finalData) \<and>
                 getProp finalData ''status'' = Inr (Some (JStr ''succeeded''))) \<or>
              status_of (POST_prompt_poll up (Inr body)) = Some 500))"
        by blast
    }
  qed
qed

theorem upstream_relayed_witness:
  "snd (POST_oneshot (script [unavailable_response]) (Inr (JObj [(''prompt'', JStr ''a cat'')]))) =
     Inr (error_reply ''Service Unavailable'' 503) \<and>
   status_of (POST_stream_b (script [not_modified_response])
     (Inr (JObj [(''pipeline_id'', JStr ''pip_1'')]))) = Some 500 \<and>
   snd (POST_stream_a (script [processing_response])
     (Inr (JObj [(''pipeline_id'', JStr ''pip_1'')]))) =
     Inr (json_reply (JObj [(''id'', JStr ''p1''), (''status'', JStr ''processing'')])) \<and>
   status_of (POST_prompt_poll (script [null_response]) (Inr text_prompt_body)) = Some 500 \<and>
   snd (POST_prompt_poll (script [succeeded_response]) (Inr text_prompt_body)) =
     Inr (json_reply (JObj [(''id'', JStr ''p1''), (''status'', JStr ''succeeded''),
        (''outputs'', JArr [JObj [(''url'', JStr ''https://example.org/cat.png'')]])]))"
proof -
  note one = upstream_relayed [where body = "JObj [(''prompt'', JStr ''a cat'')]"
      and f = "map_of [(''prompt'', JStr ''a cat'')]" and up = "script [unavailable_response]"
      and response = unavailable_response and t = "''Service Unavailable''" and data = JNull]
  have a: "snd (POST_oneshot (script [unavailable_response])
      (Inr (JObj [(''prompt'', JStr ''a cat'')]))) = Inr (error_reply ''Service Unavailable'' 503)"
    using one by (simp add: script_def unavailable_response_def ok_def)
  note two = upstream_relayed [where body = "JObj [(''pipeline_id'', JStr ''pip_1'')]"
      and f = "map_of [(''pipeline_id'', JStr ''pip_1'')]"
      and up = "script [not_modified_response]"
      and response = not_modified_response and t = "[]" and data = JNull]
  have b: "status_of (POST_stream_b (script [not_modified_response])
      (Inr (JObj [(''pipeline_id'', JStr ''pip_1'')]))) = Some 500"
    using two by (simp add: script_def not_modified_response_def ok_def)
  note three = upstream_relayed [where body = "JObj [(''pipeline_id'', JStr ''pip_1'')]"
      and f = "map_of [(''pipeline_id'', JStr ''pip_1'')]"
      and up = "script [processing_response]"
      and response = processing_response and t = "[]"
      and data = "JObj [(''id'', JStr ''p1''), (''status'', JStr ''processing'')]"]
  have c: "snd (POST_stream_a (script [processing_response])
      (Inr (JObj [(''pipeline_id'', JStr ''pip_1'')]))) =
      Inr (json_reply (JObj [(''id'', JStr ''p1''), (''status'', JStr ''processing'')]))"
    using three by (simp add: script_def processing_response_def ok_def)
  note four = upstream_relayed [where body = text_prompt_body
      and f = "map_of [(''stream_id'', JStr ''s1''), (''prompt'', JStr ''a cat'')]"
      and up = "script [null_response]" and response = null_response and t = "[]"
      and data = JNull]
  have d: "status_of (POST_prompt_poll (script [null_response]) (Inr text_prompt_body)) =
      Some 500"
    using four by (simp add: text_prompt_body_def script_def null_response_def ok_def)
  note five = upstream_relayed [where body = text_prompt_body
      and f = "map_of [(''stream_id'', JStr ''s1''), (''prompt'', JStr ''a cat'')]"
      and up = "script [succeeded_response]" and response = succeeded_response and t = "[]"
      and data = "JObj [(''id'', JStr ''p1''), (''status'', JStr ''succeeded''),
        (''outputs'', JArr [JObj [(''url'', JStr ''https://example.org/cat.png'')]])]"]
  have e: "snd (POST_prompt_poll (script [succeeded_response]) (Inr text_prompt_body)) =
     Inr (json_reply (JObj [(''id'', JStr ''p1''), (''status'', JStr ''succeeded''),
        (''outputs'', JArr [JObj [(''url'', JStr ''https://example.org/cat.png'')]])]))"
    using five
    by (simp add: text_prompt_body_def script_def succeeded_response_def ok_def getProp_def)
  from a b c d e show ?thesis by simp
qed


section \<open>The image field and the entry into polling\<close>






text \<open>
  C9, as stated, fails when the first fetch is answered ok with the body \<^verbatim>\<open>null\<close>: that
  body contains no id, no status check is sent, and the handler answers 500, not the body.
\<close>

theorem null_initial_not_returned:
  "ok null_response \<and> resp_json null_response = Inr JNull \<and>
   fst (POST_prompt_poll (script [null_response]) (Inr text_prompt_body)) =
     [Fetch (prompts_request (Some (JStr ''s1'')) (Some (JStr ''a cat'')) None)] \<and>
   status_of (POST_prompt_poll (script [null_response]) (Inr text_prompt_body)) = Some 500"
  by (simp add: POST_prompt_poll_def run_simps status_of_def catch_instanceof_def
        error_reply_def script_def null_response_def ok_def getProp_def text_prompt_body_def)

text \<open>
  C9, amended. In the prompt handler with polling, for a request that passes the check of
  its fields and whose first fetch is answered ok with a body that parses to a value other
  than null: when the id read from it is not truthy or the status is succeeded, the handler
  answers that body unchanged with status 200 and its run has one event, the first fetch,
  and so no status check; when the id is truthy and the status is not succeeded, the run
  goes on with the polling loop and has a status check. And whatever the service and the
  request, a run with a status check is one whose first fetch was answered ok with a body
  with a truthy id and a status other than succeeded.
\<close>

theorem polling_only_when_running:
  assumes "destructure body = Inr f" and "truthy (f ''stream_id'')" and "truthy (f ''prompt'')"
    and "up 0 (prompts_request (f ''stream_id'') (f ''prompt'') (f ''image'')) = Inr response"
    and "ok response" and "resp_json response = Inr initial"
    and "initial \<noteq> JNull"
  shows "(\<exists>initial_id initial_status.
            getProp initial ''id'' = Inr initial_id \<and>
            getProp initial ''status'' = Inr initial_status \<and>
            (\<not> truthy initial_id \<or> initial_status = Some (JStr ''succeeded'') \<longrightarrow>
               POST_prompt_poll up (Inr body) =
                 ([Fetch (prompts_request (f ''stream_id'') (f ''prompt'') (f ''image''))],
                  Inr (json_reply initial)) \<and>
               \<not> list_ex is_check (fst (POST_prompt_poll up (Inr body)))) \<and>
            (truthy initial_id \<and> initial_status \<noteq> Some (JStr ''succeeded'') \<longrightarrow>
               POST_prompt_poll up (Inr body) =
                 after [Fetch (prompts_request (f ''stream_id'') (f ''prompt'') (f ''image''))]
                   (try_catch
                      (await (pollForResult up 1 (f ''stream_id'') initial_id 10 3000)
                         (\<lambda>finalData. returns (json_reply finalData)))
                      catch_instanceof) \<and>
               list_ex is_check (fst (POST_prompt_poll up (Inr body))))) \<and>
         (list_ex is_check (fst (POST_prompt_poll up' rq')) \<longrightarrow>
            (\<exists>body' f' response' initial' id' status'.
               rq' = Inr body' \<and> destructure body' = Inr f' \<and>
               up' 0 (prompts_request (f' ''stream_id'') (f' ''prompt'') (f' ''image'')) =
                 Inr response' \<and>
               ok response' \<and> resp_json response' = Inr initial' \<and>
               getProp initial' ''id'' = Inr id' \<and> truthy id' \<and>
               getProp initial' ''status'' = Inr status' \<and>
               status' \<noteq> Some (JStr ''succeeded'')))"
proof (intro conjI)
  let ?rq = "prompts_request (f ''stream_id'') (f ''prompt'') (f ''image'')"
  obtain initial_id where id: "getProp initial ''id'' = Inr initial_id"
    using getProp_not_null [OF assms(7)] by blast
  obtain initial_status where st: "getProp initial ''status'' = Inr initial_status"
    using getProp_not_null [OF assms(7)] by blast
  have quiet: "\<not> truthy initial_id \<or> initial_status = Some (JStr ''succeeded'') \<longrightarrow>
      POST_prompt_poll up (Inr body) = ([Fetch ?rq], Inr (json_reply initial)) \<and>
      \<not> list_ex is_check (fst (POST_prompt_poll up (Inr body)))"
  proof
    assume "\<not> truthy initial_id \<or> initial_status = Some (JStr ''succeeded'')"
    then have verbatim: "POST_prompt_poll up (Inr body) = ([Fetch ?rq], Inr (json_reply initial))"
      using quiet_prompt_poll [of body f up response initial initial_id initial_status]
        assms id st
      by blast
    then show "POST_prompt_poll up (Inr body) = ([Fetch ?rq], Inr (json_reply initial)) \<and>
        \<not> list_ex is_check (fst (POST_prompt_poll up (Inr body)))"
      by (simp add: req_method_requests)
  qed
  have running: "truthy initial_id \<and> initial_status \<noteq> Some (JStr ''succeeded'') \<longrightarrow>
      POST_prompt_poll up (Inr body) =
        after [Fetch ?rq]
          (try_catch
             (await (pollForResult up 1 (f ''stream_id'') initial_id 10 3000)
                (\<lambda>finalData. returns (json_reply finalData)))
             catch_instanceof) \<and>
      list_ex is_check (fst (POST_prompt_poll up (Inr body)))"
  proof
    assume "truthy initial_id \<and> initial_status \<noteq> Some (JStr ''succeeded'')"
    then have entered: "POST_prompt_poll up (Inr body) =
        after [Fetch ?rq]
          (try_catch
             (await (pollForResult up 1 (f ''stream_id'') initial_id 10 3000)
                (\<lambda>finalData. returns (json_reply finalData)))
             catch_instanceof)"
      using enter_prompt_poll [of body f up response initial initial_id initial_status]
        assms id st
      by simp
    obtain tr r where first: "pollLoop up 1 (f ''stream_id'') initial_id 10 3000 0 =
        (Fetch (check_request (f ''stream_id'') initial_id) # tr, r)"
      using pollLoop_first_fetch [of 0 10 up 1 "f ''stream_id''" initial_id 3000] by auto
    have "list_ex is_check (fst (POST_prompt_poll up (Inr body)))"
      unfolding entered using first
      by (simp add: fst_after fst_try_catch fst_await_returns pollForResult_def
            req_method_requests)
    with entered show "POST_prompt_poll up (Inr body) =
        after [Fetch ?rq]
          (try_catch
             (await (pollForResult up 1 (f ''stream_id'') initial_id 10 3000)
                (\<lambda>finalData. returns (json_reply finalData)))
             catch_instanceof) \<and>
        list_ex is_check (fst (POST_prompt_poll up (Inr body)))"
      by (rule_tac conjI)
  qed
  from id st quiet running
  show "\<exists>initial_id initial_status.
      getProp initial ''id'' = Inr initial_id \<and>
      getProp initial ''status'' = Inr initial_status \<and>
      (\<not> truthy initial_id \<or> initial_status = Some (JStr ''succeeded'') \<longrightarrow>
         POST_prompt_poll up (Inr body) = ([Fetch ?rq], Inr (json_reply initial)) \<and>
         \<not> list_ex is_check (fst (POST_prompt_poll up (Inr body)))) \<and>
      (truthy initial_id \<and> initial_status \<noteq> Some (JStr ''succeeded'') \<longrightarrow>
         POST_prompt_poll up (Inr body) =
           after [Fetch ?rq]
             (try_catch
                (await (pollForResult up 1 (f ''stream_id'') initial_id 10 3000)
                   (\<lambda>finalData. returns (json_reply finalData)))
                catch_instanceof) \<and>
         list_ex is_check (fst (POST_prompt_poll up (Inr body))))"
    by blast
next
  show "list_ex is_check (fst (POST_prompt_poll up' rq')) \<longrightarrow>
      (\<exists>body' f' response' initial' id' status'.
         rq' = Inr body' \<and> destructure body' = Inr f' \<and>
         up' 0 (prompts_request (f' ''stream_id'') (f' ''prompt'') (f' ''image'')) =
           Inr response' \<and>
         ok response' \<and> resp_json response' = Inr initial' \<and>
         getProp initial' ''id'' = Inr id' \<and> truthy id' \<and>
         getProp initial' ''status'' = Inr status' \<and>
         status' \<noteq> Some (JStr ''succeeded''))"
    using checks_only_when_polling [of up' rq'] by blast
qed

theorem polling_only_when_running_witness:
  "POST_prompt_poll (script [succeeded_response]) (Inr text_prompt_body) =
     ([Fetch (prompts_request (Some (JStr ''s1'')) (Some (JStr ''a cat'')) None)],
      Inr (json_reply (JObj [(''id'', JStr ''p1''), (''status'', JStr ''succeeded''),
        (''outputs'', JArr [JObj [(''url'', JStr ''https://example.org/cat.png'')]])]))) \<and>
   list_ex is_check
     (fst (POST_prompt_poll (script [processing_response, succeeded_response])
        (Inr text_prompt_body)))"
proof -
  note quiet = polling_only_when_running [where body = text_prompt_body
      and f = "map_of [(''stream_id'', JStr ''s1''), (''prompt'', JStr ''a cat'')]"
      and up = "script [succeeded_response]" and response = succeeded_response
      and initial = "JObj [(''id'', JStr ''p1''), (''status'', JStr ''succeeded''),
        (''outputs'', JArr [JObj [(''url'', JStr ''https://example.org/cat.png'')]])]"
      and up' = "script []" and rq' = "Inl NonError"]
  have verbatim: "POST_prompt_poll (script [succeeded_response]) (Inr text_prompt_body) =
     ([Fetch (prompts_request (Some (JStr ''s1'')) (Some (JStr ''a cat'')) None)],
      Inr (json_reply (JObj [(''id'', JStr ''p1''), (''status'', JStr ''succeeded''),
        (''outputs'', JArr [JObj [(''url'', JStr ''https://example.org/cat.png'')]])])))"
    using quiet
    by (auto simp: text_prompt_body_def script_def succeeded_response_def ok_def getProp_def)
  note running = polling_only_when_running [where body = text_prompt_body
      and f = "map_of [(''stream_id'', JStr ''s1''), (''prompt'', JStr ''a cat'')]"
      and up = "script [processing_response, succeeded_response]"
      and response = processing_response
      and initial = "JObj [(''id'', JStr ''p1''), (''status'', JStr ''processing'')]"
      and up' = "script []" and rq' = "Inl NonError"]
  have "\<exists>initial_id initial_status.
      getProp (JObj [(''id'', JStr ''p1''), (''status'', JStr ''processing'')]) ''id'' =
        Inr initial_id \<and>
      getProp (JObj [(''id'', JStr ''p1''), (''status'', JStr ''processing'')]) ''status'' =
        Inr initial_status \<and>
      (truthy initial_id \<and> initial_status \<noteq> Some (JStr ''succeeded'') \<longrightarrow>
         list_ex is_check
           (fst (POST_prompt_poll (script [processing_response, succeeded_response])
              (Inr text_prompt_body))))"
    using running [THEN conjunct1]
    by (simp (no_asm_use) add: text_prompt_body_def script_def processing_response_def ok_def)
       blast
  then have polled: "list_ex is_check
     (fst (POST_prompt_poll (script [processing_response, succeeded_response])
        (Inr text_prompt_body)))"
    by (auto simp: getProp_def)
  from verbatim polled show ?thesis by (rule conjI)
qed

section \<open>Rooms of the signaling server\<close>

lemma serve_Nil: "serve s [] = s"
  by (simp add: serve_def)

lemma serve_Cons: "serve s (x # sigs) = serve (on_signal s x) sigs"
  by (simp add: serve_def)

lemma rooms_on_signal_mono: "rooms s room \<subseteq> rooms (on_signal s x) room"
  by (cases x) (auto simp: join_def)

lemma rooms_serve_mono: "rooms s room \<subseteq> rooms (serve s sigs) room"
proof (induction sigs arbitrary: s)
  case Nil
  then show ?case by (simp add: serve_Nil)
next
  case (Cons x sigs)
  have "rooms s room \<subseteq> rooms (on_signal s x) room" by (rule rooms_on_signal_mono)
  also have "\<dots> \<subseteq> rooms (serve (on_signal s x) sigs) room" by (rule Cons.IH)
  finally show ?case by (simp add: serve_Cons)
qed

lemma rooms_serve_not_joined:
  "c \<notin> rooms s room \<Longrightarrow> room \<notin> joined c sigs \<Longrightarrow> c \<notin> rooms (serve s sigs) room"
proof (induction sigs arbitrary: s)
  case Nil
  then show ?case by (simp add: serve_Nil)
next
  case (Cons x sigs)
  have step: "c \<notin> rooms (on_signal s x) room"
    using Cons.prems by (cases x) (auto simp: join_def split: if_splits)
  have rest: "room \<notin> joined c sigs"
    using Cons.prems(2) by (cases x) (auto split: if_splits)
  from Cons.IH [OF step rest] show ?case by (simp add: serve_Cons)
qed

text \<open>
  C8. A \<^verbatim>\<open>joinSession\<close> event from a connected socket adds that socket to the room of
  exactly the name it carries, whatever the string, and changes no other room; from then on
  a broadcast to that room reaches the socket, whatever signals follow. A broadcast to room
  abc never reaches a client that was not in it and did not ask to join it; in particular,
  from the server's initial state, one that asked to join room xyz only.
\<close>

theorem join_session_rooms:
  "(socket \<in> listening s \<longrightarrow>
      rooms (on_signal s (JoinSession socket roomId)) =
        (rooms s)(roomId := insert socket (rooms s roomId)) \<and>
      socket \<in> broadcast_reaches (serve (on_signal s (JoinSession socket roomId)) sigs) roomId) \<and>
   (c \<notin> broadcast_reaches s abc \<and> abc \<notin> joined c sigs \<longrightarrow>
      c \<notin> broadcast_reaches (serve s sigs) abc) \<and>
   (joined c sigs \<subseteq> {xyz} \<and> xyz \<noteq> abc \<longrightarrow>
      c \<notin> broadcast_reaches (serve init_server sigs) abc)"
proof (intro conjI impI)
  assume l: "socket \<in> listening s"
  then show r: "rooms (on_signal s (JoinSession socket roomId)) =
      (rooms s)(roomId := insert socket (rooms s roomId))"
    by (simp add: join_def)
  have "socket \<in> rooms (on_signal s (JoinSession socket roomId)) roomId"
    unfolding r by simp
  then show "socket \<in> broadcast_reaches (serve (on_signal s (JoinSession socket roomId)) sigs)
      roomId"
    using rooms_serve_mono [of "on_signal s (JoinSession socket roomId)" roomId sigs]
    by (auto simp: broadcast_reaches_def)
next
  assume "c \<notin> broadcast_reaches s abc \<and> abc \<notin> joined c sigs"
  then show "c \<notin> broadcast_reaches (serve s sigs) abc"
    using rooms_serve_not_joined [of c s abc sigs] by (simp add: broadcast_reaches_def)
next
  assume "joined c sigs \<subseteq> {xyz} \<and> xyz \<noteq> abc"
  then have "abc \<notin> joined c sigs" by auto
  then show "c \<notin> broadcast_reaches (serve init_server sigs) abc"
    using rooms_serve_not_joined [of c init_server abc sigs]
    by (simp add: broadcast_reaches_def init_server_def)
qed

theorem join_session_rooms_witness:
  "''a'' \<in> broadcast_reaches
     (serve (on_signal (serve init_server [Connection ''a'', Connection ''x''])
        (JoinSession ''a'' ''abc'')) [JoinSession ''x'' ''xyz'']) ''abc'' \<and>
   ''x'' \<notin> broadcast_reaches
     (serve init_server
        [Connection ''a'', Connection ''x'', JoinSession ''a'' ''abc'', JoinSession ''x'' ''xyz''])
     ''abc''"
proof -
  note inst = join_session_rooms [where socket = "''a''"
      and s = "serve init_server [Connection ''a'', Connection ''x'']"
      and roomId = "''abc''" and sigs = "[JoinSession ''x'' ''xyz'']"
      and c = "''x''" and abc = "''abc''" and xyz = "''xyz''"]
  have a: "''a'' \<in> broadcast_reaches
     (serve (on_signal (serve init_server [Connection ''a'', Connection ''x''])
        (JoinSession ''a'' ''abc'')) [JoinSession ''x'' ''xyz'']) ''abc''"
    by (rule inst [THEN conjunct1, THEN mp, THEN conjunct2])
       (simp add: serve_def init_server_def)
  note inst2 = join_session_rooms [where socket = "''a''" and s = init_server
      and roomId = "''abc''"
      and sigs = "[Connection ''a'', Connection ''x'', JoinSession ''a'' ''abc'',
         JoinSession ''x'' ''xyz'']"
      and c = "''x''" and abc = "''abc''" and xyz = "''xyz''"]
  have x: "''x'' \<notin> broadcast_reaches
     (serve init_server
        [Connection ''a'', Connection ''x'', JoinSession ''a'' ''abc'', JoinSession ''x'' ''xyz''])
     ''abc''"
    by (rule inst2 [THEN conjunct2, THEN conjunct2, THEN mp]) simp
  from a x show ?thesis by (rule conjI)
qed

end
